theory Spec2Isabelle
  imports Complex_Main "HOL-Library.Word"
begin

section \<open>Bytes\<close>

text \<open>
  A Python \<open>bytes\<close> value is a list of 8-bit words. The slice \<open>raw[a:b]\<close> with
  \<open>0 \<le> a\<close> never raises: it is cut at the end of the data.
\<close>

type_synonym byte = "8 word"
type_synonym bytes = "byte list"

definition bytes_of :: "string \<Rightarrow> bytes" where
  "bytes_of s = map of_char s"

definition slice :: "'a list \<Rightarrow> nat \<Rightarrow> nat \<Rightarrow> 'a list" where
  "slice xs a b = take (b - a) (drop a xs)"

text \<open>The two tags of the chained-block tile format: \<open>b"bv41"\<close> and \<open>b"bv4$"\<close>.\<close>

definition bv41_tag :: bytes where
  "bv41_tag = bytes_of ''bv41''"

definition bv4_end :: bytes where
  "bv4_end = bytes_of ''bv4$''"

text \<open>
  \<open>struct.unpack_from("<I", raw, off)[0]\<close>: four bytes, little endian, unsigned;
  \<open>struct.error\<close> (here \<open>None\<close>) when fewer than four bytes are left at \<open>off\<close>.
\<close>

definition unpack_u32_le :: "bytes \<Rightarrow> nat \<Rightarrow> nat option" where
  "unpack_u32_le raw off =
     (case slice raw off (off + 4) of
        [b0, b1, b2, b3] \<Rightarrow>
          Some (unat b0 + 256 * unat b1 + 65536 * unat b2 + 16777216 * unat b3)
      | _ \<Rightarrow> None)"

section \<open>Python values\<close>

text \<open>
  The values \<open>plistlib\<close> returns: strings, integers, floats, booleans, byte strings,
  lists, dictionaries (keys are strings; an association list, looked up from the front),
  \<open>plistlib.UID\<close> (its \<open>data\<close> is a non-negative integer) and dates. Python's \<open>None\<close>
  is the \<open>None\<close> of an \<open>option\<close>. A float is the real number it denotes (finite
  values only).
\<close>

datatype pyobj =
    PStr string
  | PInt int
  | PFloat real
  | PBool bool
  | PBytes bytes
  | PList "pyobj list"
  | PDict "(string \<times> pyobj) list"
  | PUID nat
  | PDate

datatype py_error =
    FileNotFoundError | ValueError | AttributeError | TypeError | KeyError

text \<open>Sequencing of calls that may raise: the first exception ends the computation.\<close>

definition py_bind :: "py_error + 'a \<Rightarrow> ('a \<Rightarrow> py_error + 'b) \<Rightarrow> py_error + 'b" where
  "py_bind m f = (case m of Inl e \<Rightarrow> Inl e | Inr x \<Rightarrow> f x)"

fun is_dict :: "pyobj option \<Rightarrow> bool" where
  "is_dict (Some (PDict d)) = True"
| "is_dict _ = False"

fun is_str :: "pyobj option \<Rightarrow> bool" where
  "is_str (Some (PStr s)) = True"
| "is_str _ = False"

text \<open>\<open>isinstance(v, (int, float))\<close>: \<open>bool\<close> is a subclass of \<open>int\<close>.\<close>

fun is_number :: "pyobj option \<Rightarrow> bool" where
  "is_number (Some (PInt i)) = True"
| "is_number (Some (PFloat r)) = True"
| "is_number (Some (PBool b)) = True"
| "is_number _ = False"

text \<open>\<open>int(x)\<close> of a float truncates towards zero.\<close>

definition trunc :: "real \<Rightarrow> int" where
  "trunc r = (if 0 \<le> r then \<lfloor>r\<rfloor> else \<lceil>r\<rceil>)"

fun int_of_number :: "pyobj \<Rightarrow> int" where
  "int_of_number (PInt i) = i"
| "int_of_number (PFloat r) = trunc r"
| "int_of_number (PBool b) = (if b then 1 else 0)"
| "int_of_number _ = 0"

fun float_of_number :: "pyobj \<Rightarrow> real" where
  "float_of_number (PInt i) = of_int i"
| "float_of_number (PFloat r) = r"
| "float_of_number (PBool b) = (if b then 1 else 0)"
| "float_of_number _ = 0"

text \<open>The truth value of an object, as \<open>not x\<close> and \<open>if x\<close> read it.\<close>

fun truthy :: "pyobj option \<Rightarrow> bool" where
  "truthy None = False"
| "truthy (Some (PStr s)) = (s \<noteq> [])"
| "truthy (Some (PInt i)) = (i \<noteq> 0)"
| "truthy (Some (PFloat r)) = (r \<noteq> 0)"
| "truthy (Some (PBool b)) = b"
| "truthy (Some (PBytes b)) = (b \<noteq> [])"
| "truthy (Some (PList xs)) = (xs \<noteq> [])"
| "truthy (Some (PDict d)) = (d \<noteq> [])"
| "truthy (Some (PUID n)) = True"
| "truthy (Some PDate) = True"

text \<open>\<open>len(x)\<close> and \<open>x[i]\<close> for \<open>0 \<le> i < len(x)\<close>.\<close>

fun py_len :: "pyobj \<Rightarrow> py_error + nat" where
  "py_len (PStr s) = Inr (length s)"
| "py_len (PBytes b) = Inr (length b)"
| "py_len (PList xs) = Inr (length xs)"
| "py_len (PDict d) = Inr (length d)"
| "py_len _ = Inl TypeError"

fun py_getitem :: "pyobj \<Rightarrow> nat \<Rightarrow> py_error + pyobj" where
  "py_getitem (PList xs) i = Inr (xs ! i)"
| "py_getitem (PStr s) i = Inr (PStr [s ! i])"
| "py_getitem (PBytes b) i = Inr (PInt (uint (b ! i)))"
| "py_getitem (PDict d) i = Inl KeyError"
| "py_getitem _ i = Inl TypeError"

text \<open>\<open>d.get(key)\<close> and \<open>d.get(key, default)\<close>.\<close>

definition dict_get :: "(string \<times> pyobj) list \<Rightarrow> string \<Rightarrow> pyobj option" where
  "dict_get d k = map_of d k"

definition dict_get_default ::
  "(string \<times> pyobj) list \<Rightarrow> string \<Rightarrow> pyobj option \<Rightarrow> pyobj option" where
  "dict_get_default d k dflt = (case map_of d k of Some v \<Rightarrow> Some v | None \<Rightarrow> dflt)"

section \<open>Images\<close>

text \<open>
  An RGBA image of the imaging library: its size and its pixels, row by row. A pixel
  is \<open>(r, g, b, a)\<close>.
\<close>

type_synonym pixel = "byte \<times> byte \<times> byte \<times> byte"

record image =
  width :: nat
  height :: nat
  im_data :: "pixel list"



text \<open>
  \<open>getpixel im x y\<close> reads the pixel in column \<open>x\<close> of row \<open>y\<close>; \<open>build_image\<close>
  makes an image from a function of the coordinates.
\<close>

definition getpixel :: "image \<Rightarrow> nat \<Rightarrow> nat \<Rightarrow> pixel" where
  "getpixel im x y = im_data im ! (y * width im + x)"

definition build_image :: "nat \<Rightarrow> nat \<Rightarrow> (nat \<Rightarrow> nat \<Rightarrow> pixel) \<Rightarrow> image" where
  "build_image w h f =
     \<lparr>width = w, height = h, im_data = map (\<lambda>i. f (i mod w) (i div w)) [0..<w * h]\<rparr>"

text \<open>\<open>Image.new("RGBA", (w, h), colour)\<close>.\<close>

definition new_image :: "nat \<Rightarrow> nat \<Rightarrow> pixel \<Rightarrow> image" where
  "new_image w h colour = \<lparr>width = w, height = h, im_data = replicate (w * h) colour\<rparr>"

text \<open>
  \<open>Image.frombytes("RGBA", (n, n), data, "raw", "BGRA")\<close> for \<open>len(data) = n * n * 4\<close>:
  the four bytes of a pixel are blue, green, red, alpha.
\<close>

definition frombytes_bgra :: "nat \<Rightarrow> bytes \<Rightarrow> image" where
  "frombytes_bgra n buf =
     build_image n n
       (\<lambda>x y. let i = 4 * (y * n + x) in (buf ! (i + 2), buf ! (i + 1), buf ! i, buf ! (i + 3)))"

text \<open>
  \<open>im.paste(tile, (ox, oy))\<close>: the pixels of \<open>tile\<close> replace those of \<open>im\<close> in the box
  whose upper left corner is \<open>(ox, oy)\<close>, alpha included; the part of the box outside
  \<open>im\<close> is cut off. \<open>covers pos tile x y\<close> says that the pixel \<open>(x, y)\<close> lies in the box.
\<close>

definition covers :: "int \<times> int \<Rightarrow> image \<Rightarrow> nat \<Rightarrow> nat \<Rightarrow> bool" where
  "covers pos tile x y =
     (fst pos \<le> int x \<and> int x < fst pos + int (width tile)
      \<and> snd pos \<le> int y \<and> int y < snd pos + int (height tile))"

definition paste :: "image \<Rightarrow> image \<Rightarrow> int \<times> int \<Rightarrow> image" where
  "paste im tile pos =
     build_image (width im) (height im)
       (\<lambda>x y. if covers pos tile x y
               then getpixel tile (nat (int x - fst pos)) (nat (int y - snd pos))
               else getpixel im x y)"

text \<open>\<open>im.crop((0, 0, w, h))\<close>; outside \<open>im\<close> the result is transparent black.\<close>

definition crop :: "image \<Rightarrow> nat \<Rightarrow> nat \<Rightarrow> image" where
  "crop im w h =
     build_image w h
       (\<lambda>x y. if x < width im \<and> y < height im then getpixel im x y else (0, 0, 0, 0))"

text \<open>
  The opacity step of \<open>composite_layers\<close>: \<open>split\<close>, \<open>a.point(lambda x: int(x * op))\<close>,
  \<open>merge\<close>. The library stores each value of the table clipped to \<open>0..255\<close>. The product
  is the exact one: so is the float product whenever it is representable, as for
  \<open>op = 0.5\<close>.
\<close>

definition clip8 :: "int \<Rightarrow> byte" where
  "clip8 i = (if i < 0 then 0 else if 255 < i then 255 else of_int i)"

definition opacity_point :: "real \<Rightarrow> byte \<Rightarrow> byte" where
  "opacity_point op x = clip8 (trunc (real (unat x) * op))"

definition apply_opacity :: "real \<Rightarrow> image \<Rightarrow> image" where
  "apply_opacity op im =
     im\<lparr>im_data := map (\<lambda>(r, g, b, a). (r, g, b, opacity_point op a)) (im_data im)\<rparr>"

text \<open>
  \<open>Image.alpha_composite(dst, src)\<close>: \<open>src\<close> over \<open>dst\<close>, in the library's integer
  arithmetic (seven extra bits of precision, rounded divisions by 255). Where the
  source pixel is fully transparent the destination pixel is copied. Images of
  different sizes raise \<open>ValueError\<close>.
\<close>

definition shift_div255 :: "nat \<Rightarrow> nat" where
  "shift_div255 a = (a div 256 + a) div 256"

definition alpha_over :: "pixel \<Rightarrow> pixel \<Rightarrow> pixel" where
  "alpha_over dst src =
     (case dst of (dr, dg, db, da) \<Rightarrow>
      case src of (sr, sg, sb, sa) \<Rightarrow>
        if sa = 0 then dst
        else
          let blend = unat da * (255 - unat sa);
              outa255 = unat sa * 255 + blend;
              coef1 = unat sa * 255 * 255 * 128 div outa255;
              coef2 = 255 * 128 - coef1;
              channel = (\<lambda>s d. of_nat (shift_div255 (unat s * coef1 + unat d * coef2
                                                    + 128 * 128) div 128))
          in (channel sr dr, channel sg dg, channel sb db,
              of_nat (shift_div255 (outa255 + 128))))"

definition alpha_composite :: "image \<Rightarrow> image \<Rightarrow> py_error + image" where
  "alpha_composite dst src =
     (if width dst \<noteq> width src \<or> height dst \<noteq> height src then Inl ValueError
      else Inr (dst\<lparr>im_data := map2 alpha_over (im_data dst) (im_data src)\<rparr>))"


section \<open>The libraries the reader calls\<close>

text \<open>
  The decoders come from packages outside the repository. They are parameters of the
  model; \<open>None\<close> stands for any exception of the call (also the \<open>ImportError\<close> of a
  package that is not installed, which the source catches in the same \<open>try\<close>).
  \<^item> \<open>lz4_decompress src n d\<close> is \<open>lz4.block.decompress(src, uncompressed_size=n, dict=d)\<close>;
  \<^item> \<open>lzo_decompress src n\<close> is \<open>lzo.decompress(src, False, n)\<close>;
  \<^item> \<open>zlib_decompress src\<close> is \<open>zlib.decompress(src)\<close>;
  \<^item> \<open>plist_loads src\<close> is \<open>plistlib.loads(src)\<close>;
  \<^item> \<open>image_open src\<close> is \<open>Image.open(io.BytesIO(src))\<close> followed by \<open>img.load()\<close>.
\<close>

record libs =
  lz4_decompress :: "bytes \<Rightarrow> nat \<Rightarrow> bytes option \<Rightarrow> bytes option"
  lzo_decompress :: "bytes \<Rightarrow> nat \<Rightarrow> bytes option"
  zlib_decompress :: "bytes \<Rightarrow> bytes option"
  plist_loads :: "bytes \<Rightarrow> pyobj option"
  image_open :: "bytes \<Rightarrow> image option"

section \<open>Strings and archive entries\<close>

text \<open>
  Entry names are strings of one-byte characters. \<open>lower\<close> is \<open>str.lower()\<close> on
  ASCII; \<open>startswith\<close>, \<open>endswith\<close>, \<open>split_on\<close> (\<open>str.split(sep)\<close> for a separator
  of one character) and \<open>contains_str\<close> (\<open>needle in s\<close>) are the string methods.
\<close>

definition lower_char :: "char \<Rightarrow> char" where
  "lower_char c =
     (if (65::nat) \<le> of_char c \<and> (of_char c :: nat) \<le> 90 then char_of (of_char c + (32::nat))
      else c)"

definition lower :: "string \<Rightarrow> string" where
  "lower s = map lower_char s"

definition startswith :: "string \<Rightarrow> string \<Rightarrow> bool" where
  "startswith s p = (take (length p) s = p)"

definition endswith :: "string \<Rightarrow> string \<Rightarrow> bool" where
  "endswith s p = (length p \<le> length s \<and> drop (length s - length p) s = p)"

fun split_on :: "char \<Rightarrow> string \<Rightarrow> string list" where
  "split_on sep [] = [[]]"
| "split_on sep (c # cs) =
     (if c = sep then [] # split_on sep cs
      else (case split_on sep cs of
              [] \<Rightarrow> [[c]]
            | p # ps \<Rightarrow> (c # p) # ps))"

fun contains_str :: "string \<Rightarrow> string \<Rightarrow> bool" where
  "contains_str needle [] = (needle = [])"
| "contains_str needle (c # cs) =
     (take (length needle) (c # cs) = needle \<or> contains_str needle cs)"

text \<open>
  \<open>int(s)\<close> for a string: white space is stripped, then an optional sign and decimal
  digits, which single underscores may separate. \<open>None\<close> is \<open>ValueError\<close>. (The
  interpreter's limit on the number of digits is not modelled.)
\<close>

definition is_space :: "char \<Rightarrow> bool" where
  "is_space c = ((of_char c :: nat) \<in> {9, 10, 11, 12, 13, 28, 29, 30, 31, 32})"

definition strip :: "string \<Rightarrow> string" where
  "strip s = rev (dropWhile is_space (rev (dropWhile is_space s)))"

definition is_digit :: "char \<Rightarrow> bool" where
  "is_digit c = ((48::nat) \<le> of_char c \<and> (of_char c :: nat) \<le> 57)"

definition digit_val :: "char \<Rightarrow> nat" where
  "digit_val c = of_char c - 48"

fun parse_digits :: "nat \<Rightarrow> string \<Rightarrow> nat option" where
  "parse_digits acc [] = Some acc"
| "parse_digits acc [c] = (if is_digit c then Some (acc * 10 + digit_val c) else None)"
| "parse_digits acc (c # d # cs) =
     (if is_digit c then parse_digits (acc * 10 + digit_val c) (d # cs)
      else if c = CHR ''_'' \<and> is_digit d then parse_digits acc (d # cs)
      else None)"

definition parse_unsigned :: "string \<Rightarrow> nat option" where
  "parse_unsigned s =
     (case s of [] \<Rightarrow> None | c # cs \<Rightarrow> if is_digit c then parse_digits 0 s else None)"

definition py_int :: "string \<Rightarrow> int option" where
  "py_int s =
     (case strip s of
        [] \<Rightarrow> None
      | c # cs \<Rightarrow>
          if c = CHR ''-'' then map_option (\<lambda>n. - int n) (parse_unsigned cs)
          else if c = CHR ''+'' then map_option int (parse_unsigned cs)
          else map_option int (parse_unsigned (c # cs)))"

text \<open>\<open>str(n)\<close> for a natural number, as the f-string \<open>f"Layer {n}"\<close> prints it.\<close>

fun str_of_nat :: "nat \<Rightarrow> string" where
  "str_of_nat n =
     (if n < 10 then [char_of (48 + n)]
      else str_of_nat (n div 10) @ [char_of (48 + n mod 10)])"

text \<open>
  The opened ZIP archive: its entries in directory order, each with its content, or
  \<open>None\<close> for an entry that cannot be read. \<open>zip_read\<close> is \<open>ZipFile.read(name)\<close> (the
  last entry of that name); its \<open>None\<close> is \<open>KeyError\<close> or any other exception, which
  every caller in the reader treats alike.
\<close>

type_synonym zip_archive = "(string \<times> bytes option) list"

definition namelist :: "zip_archive \<Rightarrow> string list" where
  "namelist z = map fst z"

definition zip_read :: "zip_archive \<Rightarrow> string \<Rightarrow> bytes option" where
  "zip_read z n = (case map_of (rev z) n of Some (Some b) \<Rightarrow> Some b | _ \<Rightarrow> None)"

text \<open>What \<open>filepath\<close> names: nothing, a file that is not a ZIP archive, or an archive.\<close>

datatype source = Missing | NotZip | ZipFile zip_archive

section \<open>The reader's state\<close>

record procreate_layer =
  name :: string
  uuid :: string
  opacity :: real
  visible :: bool
  blend_mode :: int

record procreate_file =
  thumbnail :: "image option"
  composite :: "image option"
  layers :: "procreate_layer list"
  canvas_width :: int
  canvas_height :: int
  dpi :: int
  orientation :: int
  color_profile :: string
  layer_count :: nat
  video_enabled :: bool
  metadata :: "(string \<times> pyobj) list"
  zip_file :: "zip_archive option"
  document_archive :: "pyobj option"
  archive_objects :: pyobj

text \<open>The fields as \<open>__init__\<close> sets them, before \<open>_load\<close>.\<close>

definition initial_file :: procreate_file where
  "initial_file =
     \<lparr>thumbnail = None, composite = None, layers = [], canvas_width = 0, canvas_height = 0,
      dpi = 132, orientation = 0, color_profile = ''sRGB'', layer_count = 0,
      video_enabled = False, metadata = [], zip_file = None, document_archive = None,
      archive_objects = PList []\<rparr>"

section \<open>Loading: thumbnail, preview and document archive\<close>

definition try_load_image :: "libs \<Rightarrow> zip_archive \<Rightarrow> string \<Rightarrow> image option" where
  "try_load_image L z zip_path =
     (case zip_read z zip_path of None \<Rightarrow> None | Some b \<Rightarrow> image_open L b)"

fun first_image :: "libs \<Rightarrow> zip_archive \<Rightarrow> string list \<Rightarrow> image option" where
  "first_image L z [] = None"
| "first_image L z (p # ps) =
     (case try_load_image L z p of Some img \<Rightarrow> Some img | None \<Rightarrow> first_image L z ps)"

definition load_thumbnail :: "libs \<Rightarrow> zip_archive \<Rightarrow> procreate_file \<Rightarrow> procreate_file" where
  "load_thumbnail L z pf =
     (case first_image L z
             [''QuickLook/Thumbnail.png'', ''QuickLook/thumbnail.png'', ''Thumbnail.png''] of
        Some img \<Rightarrow> pf\<lparr>thumbnail := Some img\<rparr>
      | None \<Rightarrow>
         (case first_image L z
                 (filter (\<lambda>n. startswith n ''QuickLook/'' \<and> endswith (lower n) ''.png'')
                    (namelist z)) of
            Some img \<Rightarrow> pf\<lparr>thumbnail := Some img\<rparr>
          | None \<Rightarrow> pf))"

definition load_composite :: "libs \<Rightarrow> zip_archive \<Rightarrow> procreate_file \<Rightarrow> procreate_file" where
  "load_composite L z pf =
     (case first_image L z
             [''QuickLook/Preview.png'', ''QuickLook/preview.png'', ''composite.png''] of
        Some img \<Rightarrow> pf\<lparr>composite := Some img\<rparr>
      | None \<Rightarrow> pf)"

text \<open>
  \<open>_load_document_archive\<close>: the loop over the two names. \<open>_document_archive\<close> is
  assigned before \<open>.get("$objects", [])\<close> is called on it; when that call raises
  (the decoded value is not a dictionary) the assignment stays and the loop goes on.
\<close>

fun load_archive_paths ::
  "libs \<Rightarrow> zip_archive \<Rightarrow> string list \<Rightarrow> procreate_file \<Rightarrow> procreate_file" where
  "load_archive_paths L z [] pf = pf"
| "load_archive_paths L z (path # paths) pf =
     (case zip_read z path of
        None \<Rightarrow> load_archive_paths L z paths pf
      | Some b \<Rightarrow>
         (case plist_loads L b of
            None \<Rightarrow> load_archive_paths L z paths pf
          | Some (PDict d) \<Rightarrow>
              pf\<lparr>document_archive := Some (PDict d),
                 archive_objects :=
                   (case dict_get d ''$objects'' of Some v \<Rightarrow> v | None \<Rightarrow> PList [])\<rparr>
          | Some p \<Rightarrow> load_archive_paths L z paths (pf\<lparr>document_archive := Some p\<rparr>)))"

definition load_document_archive ::
  "libs \<Rightarrow> zip_archive \<Rightarrow> procreate_file \<Rightarrow> procreate_file" where
  "load_document_archive L z pf =
     load_archive_paths L z [''Document.archive'', ''document.archive''] pf"

section \<open>The object graph\<close>

text \<open>
  \<open>_resolve_uid\<close>. The index \<open>idx\<close> of a reference: an \<open>int\<close> (a \<open>bool\<close> is one), or
  the \<open>data\<close> of a \<open>plistlib.UID\<close>; every other value has none. The graph
  \<open>_archive_objects\<close> is whatever the archive holds under \<open>$objects\<close>, a list in a
  well-formed archive.
\<close>

fun uid_index :: "pyobj \<Rightarrow> int option" where
  "uid_index (PInt i) = Some i"
| "uid_index (PBool b) = Some (if b then 1 else 0)"
| "uid_index (PUID n) = Some (int n)"
| "uid_index _ = None"

definition resolve_uid :: "pyobj \<Rightarrow> pyobj option \<Rightarrow> py_error + pyobj option" where
  "resolve_uid objs uid =
     (case uid of
        None \<Rightarrow> Inr None
      | Some u \<Rightarrow>
         (case uid_index u of
            None \<Rightarrow> Inr None
          | Some idx \<Rightarrow>
              if 0 \<le> idx then
                py_bind (py_len objs) (\<lambda>n.
                  if idx < int n then py_bind (py_getitem objs (nat idx)) (\<lambda>v. Inr (Some v))
                  else Inr None)
              else Inr None))"

text \<open>\<open>_get_root_object\<close>: \<open>.get\<close> on a value that is not a dictionary raises.\<close>

definition get_root_object :: "procreate_file \<Rightarrow> py_error + pyobj option" where
  "get_root_object pf =
     (if \<not> truthy (document_archive pf) then Inr None
      else
        (case document_archive pf of
           Some (PDict d) \<Rightarrow>
            (case dict_get_default d ''$top'' (Some (PDict [])) of
               Some (PDict top_dict) \<Rightarrow>
                 py_bind (resolve_uid (archive_objects pf) (dict_get top_dict ''root'')) (\<lambda>root.
                   if is_dict root then Inr root
                   else
                     py_bind (py_len (archive_objects pf)) (\<lambda>n.
                       if 1 < n then
                         py_bind (py_getitem (archive_objects pf) 1) (\<lambda>v.
                           if is_dict (Some v) then Inr (Some v) else Inr None)
                       else Inr None))
             | _ \<Rightarrow> Inl AttributeError)
         | _ \<Rightarrow> Inl AttributeError))"

section \<open>Metadata\<close>

text \<open>\<open>struct.unpack(">i", b)[0]\<close>: exactly four bytes, big endian, signed.\<close>

definition unpack_i32_be :: "bytes \<Rightarrow> int option" where
  "unpack_i32_be b =
     (case b of
        [b0, b1, b2, b3] \<Rightarrow>
          (let n = 16777216 * uint b0 + 65536 * uint b1 + 256 * uint b2 + uint b3
           in Some (if n < 2147483648 then n else n - 4294967296))
      | _ \<Rightarrow> None)"

fun get_int :: "(string \<times> pyobj) list \<Rightarrow> string list \<Rightarrow> int \<Rightarrow> int" where
  "get_int d [] dflt = dflt"
| "get_int d (k # ks) dflt =
     (case dict_get d k of
        None \<Rightarrow> get_int d ks dflt
      | Some v \<Rightarrow>
          if is_number (Some v) then int_of_number v
          else
            (case v of
               PBytes b \<Rightarrow>
                 (case unpack_i32_be (take 4 b) of
                    Some i \<Rightarrow> i
                  | None \<Rightarrow> get_int d ks dflt)
             | _ \<Rightarrow> get_int d ks dflt))"

text \<open>\<open>x not in (False, None, "$null")\<close>: membership compares with \<open>==\<close>.\<close>

fun video_marker :: "pyobj option \<Rightarrow> bool" where
  "video_marker None = False"
| "video_marker (Some (PBool b)) = b"
| "video_marker (Some (PInt i)) = (i \<noteq> 0)"
| "video_marker (Some (PFloat r)) = (r \<noteq> 0)"
| "video_marker (Some (PStr s)) = (s \<noteq> ''$null'')"
| "video_marker (Some _) = True"

definition parse_metadata :: "procreate_file \<Rightarrow> py_error + procreate_file" where
  "parse_metadata pf =
     py_bind (get_root_object pf) (\<lambda>root.
       if \<not> truthy root then Inr pf
       else
         (case root of
            Some (PDict r) \<Rightarrow>
              (let cw = get_int r [''SilicaDocumentArchiveDimensionWidth'', ''width'',
                                   ''canvasWidth'', ''tileSize''] 0;
                   ch = get_int r [''SilicaDocumentArchiveDimensionHeight'', ''height'',
                                   ''canvasHeight''] 0;
                   cw = (case thumbnail pf of
                           Some t \<Rightarrow> if cw = 0 then int (width t) else cw
                         | None \<Rightarrow> cw);
                   ch = (case thumbnail pf of
                           Some t \<Rightarrow> if ch = 0 then int (height t) else ch
                         | None \<Rightarrow> ch);
                   d = get_int r [''SilicaDocumentArchiveDPI'', ''dpi''] 0;
                   ori = get_int r [''SilicaDocumentArchiveOrientation'', ''orientation''] 0;
                   video = video_marker
                             (dict_get_default r ''SilicaDocumentVideoSegmentInfoKey''
                                (Some (PBool False)))
               in py_bind (resolve_uid (archive_objects pf)
                            (dict_get r ''SilicaDocumentArchiveICCProfileData'')) (\<lambda>cp.
                    Inr (pf\<lparr>canvas_width := cw, canvas_height := ch,
                            dpi := (if 0 < d then d else dpi pf),
                            orientation := ori,
                            video_enabled := video,
                            color_profile := (case cp of Some (PStr s) \<Rightarrow> s
                                              | _ \<Rightarrow> color_profile pf),
                            metadata := metadata pf @
                              filter (\<lambda>(k, v). is_str (Some v) \<or> is_number (Some v)) r\<rparr>)))
          | _ \<Rightarrow> Inr pf))"

section \<open>Layers\<close>

text \<open>\<open>for x in obj\<close>: the elements of a list, the characters of a string, the bytes of a
  byte string, the keys of a dictionary; any other value is not iterable.\<close>

fun py_iter :: "pyobj \<Rightarrow> py_error + pyobj list" where
  "py_iter (PList xs) = Inr xs"
| "py_iter (PStr s) = Inr (map (\<lambda>c. PStr [c]) s)"
| "py_iter (PBytes b) = Inr (map (\<lambda>x. PInt (uint x)) b)"
| "py_iter (PDict d) = Inr (map (\<lambda>kv. PStr (fst kv)) d)"
| "py_iter _ = Inl TypeError"

text \<open>\<open>"SilicaLayer" in x\<close>.\<close>

fun py_contains :: "string \<Rightarrow> pyobj \<Rightarrow> py_error + bool" where
  "py_contains needle (PStr s) = Inr (contains_str needle s)"
| "py_contains needle (PList xs) = Inr (PStr needle \<in> set xs)"
| "py_contains needle (PDict d) = Inr (map_of d needle \<noteq> None)"
| "py_contains needle _ = Inl TypeError"

fun resolve_layer_field ::
  "pyobj \<Rightarrow> (string \<times> pyobj) list \<Rightarrow> string list \<Rightarrow> py_error + pyobj option" where
  "resolve_layer_field objs layer_dict [] = Inr None"
| "resolve_layer_field objs layer_dict (k # ks) =
     (case dict_get layer_dict k of
        None \<Rightarrow> resolve_layer_field objs layer_dict ks
      | Some v \<Rightarrow>
          (case resolve_uid objs (Some v) of
             Inl e \<Rightarrow> Inl e
           | Inr resolved \<Rightarrow>
               if resolved \<noteq> None \<and> \<not> is_dict resolved then Inr resolved
               else if is_str (Some v) then Inr (Some v)
               else resolve_layer_field objs layer_dict ks))"

definition str_or :: "pyobj option \<Rightarrow> string \<Rightarrow> string" where
  "str_or v dflt = (case v of Some (PStr s) \<Rightarrow> s | _ \<Rightarrow> dflt)"

definition float_or :: "pyobj option \<Rightarrow> real \<Rightarrow> real" where
  "float_or v dflt =
     (case v of Some x \<Rightarrow> if is_number (Some x) then float_of_number x else dflt
      | None \<Rightarrow> dflt)"

definition int_or :: "pyobj option \<Rightarrow> int \<Rightarrow> int" where
  "int_or v dflt =
     (case v of Some x \<Rightarrow> if is_number (Some x) then int_of_number x else dflt
      | None \<Rightarrow> dflt)"

text \<open>The body of the loop of \<open>_parse_layers\<close> for one layer dictionary; \<open>n\<close> is
  \<open>len(self.layers)\<close>.\<close>

definition parse_layer_dict ::
  "pyobj \<Rightarrow> (string \<times> pyobj) list \<Rightarrow> nat \<Rightarrow> py_error + procreate_layer" where
  "parse_layer_dict objs layer_dict n =
     py_bind (resolve_layer_field objs layer_dict [''name'', ''SilicaLayerArchiveName''])
       (\<lambda>nm.
     py_bind (resolve_layer_field objs layer_dict
                [''UUID'', ''uuid'', ''SilicaLayerArchiveUUID''])
       (\<lambda>uu.
        Inr \<lparr>name = str_or nm (''Layer '' @ str_of_nat (n + 1)),
             uuid = str_or uu [],
             opacity =
               float_or
                 (dict_get_default layer_dict ''contentsOpacity''
                   (dict_get_default layer_dict ''opacity''
                     (dict_get_default layer_dict ''SilicaLayerArchiveOpacity''
                       (Some (PFloat 1))))) 1,
             visible =
               (\<not> truthy
                 (dict_get_default layer_dict ''hidden''
                   (dict_get_default layer_dict ''SilicaLayerArchiveHidden''
                     (Some (PBool False))))),
             blend_mode =
               int_or
                 (dict_get_default layer_dict ''extendedBlend''
                   (dict_get_default layer_dict ''blend''
                     (dict_get_default layer_dict ''blendMode'' (Some (PInt 0))))) 0\<rparr>))"

fun parse_layer_refs ::
  "pyobj \<Rightarrow> pyobj list \<Rightarrow> procreate_layer list \<Rightarrow> py_error + procreate_layer list" where
  "parse_layer_refs objs [] ls = Inr ls"
| "parse_layer_refs objs (ref # refs) ls =
     (case resolve_uid objs (Some ref) of
        Inl e \<Rightarrow> Inl e
      | Inr (Some (PDict layer_dict)) \<Rightarrow>
         (case parse_layer_dict objs layer_dict (length ls) of
            Inl e \<Rightarrow> Inl e
          | Inr layer \<Rightarrow> parse_layer_refs objs refs (ls @ [layer]))
      | Inr _ \<Rightarrow> parse_layer_refs objs refs ls)"

text \<open>\<open>_parse_layers_fallback\<close>: the body of its loop for one object, then the loop.\<close>

definition fallback_layer ::
  "pyobj \<Rightarrow> pyobj \<Rightarrow> nat \<Rightarrow> py_error + procreate_layer option" where
  "fallback_layer objs obj n =
     (case obj of
        PDict d \<Rightarrow>
         (case dict_get d ''$class'' of
            None \<Rightarrow> Inr None
          | Some cls_ref \<Rightarrow>
              py_bind (resolve_uid objs (Some cls_ref)) (\<lambda>cls_obj.
                (case cls_obj of
                   Some (PDict c) \<Rightarrow>
                     (case dict_get_default c ''$classname'' (Some (PStr [])) of
                        None \<Rightarrow> Inr None
                      | Some classname \<Rightarrow>
                         py_bind (py_contains ''SilicaLayer'' classname) (\<lambda>found.
                           if \<not> found then Inr None
                           else
                             py_bind (resolve_uid objs
                                        (dict_get_default d ''name''
                                           (dict_get d ''SilicaLayerArchiveName'')))
                               (\<lambda>nm.
                                  Inr (Some
                                    \<lparr>name = str_or nm (''Layer '' @ str_of_nat (n + 1)),
                                     uuid = [],
                                     opacity =
                                       float_or
                                         (dict_get_default d ''contentsOpacity''
                                           (dict_get_default d ''opacity''
                                              (Some (PFloat 1)))) 1,
                                     visible =
                                       (\<not> truthy (dict_get_default d ''hidden''
                                                     (Some (PBool False)))),
                                     blend_mode = 0\<rparr>))))
                 | _ \<Rightarrow> Inr None)))
      | _ \<Rightarrow> Inr None)"

fun parse_layers_fallback ::
  "pyobj \<Rightarrow> pyobj list \<Rightarrow> procreate_layer list \<Rightarrow> py_error + procreate_layer list" where
  "parse_layers_fallback objs [] ls = Inr ls"
| "parse_layers_fallback objs (obj # rest) ls =
     (case fallback_layer objs obj (length ls) of
        Inl e \<Rightarrow> Inl e
      | Inr None \<Rightarrow> parse_layers_fallback objs rest ls
      | Inr (Some layer) \<Rightarrow> parse_layers_fallback objs rest (ls @ [layer]))"

definition parse_layers :: "procreate_file \<Rightarrow> py_error + procreate_file" where
  "parse_layers pf =
     py_bind (get_root_object pf) (\<lambda>root.
       if \<not> truthy root then Inr pf
       else
         (case root of
            Some (PDict r) \<Rightarrow>
              py_bind (resolve_uid (archive_objects pf)
                         (dict_get_default r ''SilicaDocumentArchiveLayers''
                            (dict_get r ''layers''))) (\<lambda>layers_ref.
              py_bind (py_iter
                         (case layers_ref of
                            Some (PDict d) \<Rightarrow>
                              (case dict_get d ''NS.objects'' of
                                 Some v \<Rightarrow> v
                               | None \<Rightarrow> PList [])
                          | Some (PList xs) \<Rightarrow> PList xs
                          | _ \<Rightarrow> PList [])) (\<lambda>obj_refs.
              py_bind (parse_layer_refs (archive_objects pf) obj_refs (layers pf)) (\<lambda>ls.
              py_bind (if ls = []
                       then py_bind (py_iter (archive_objects pf)) (\<lambda>objs.
                              parse_layers_fallback (archive_objects pf) objs ls)
                       else Inr ls) (\<lambda>ls.
                Inr (pf\<lparr>layers := ls,
                        layer_count := (if ls \<noteq> [] then length ls else layer_count pf)\<rparr>)))))
          | _ \<Rightarrow> Inr pf))"

text \<open>\<open>_load\<close>, run by the constructor: what opening a file returns or raises.\<close>

definition open_file :: "libs \<Rightarrow> source \<Rightarrow> py_error + procreate_file" where
  "open_file L src =
     (case src of
        Missing \<Rightarrow> Inl FileNotFoundError
      | NotZip \<Rightarrow> Inl ValueError
      | ZipFile z \<Rightarrow>
          (let pf = initial_file\<lparr>zip_file := Some z\<rparr>;
               pf = load_thumbnail L z pf;
               pf = load_composite L z pf;
               pf = load_document_archive L z pf
           in py_bind (parse_metadata pf) parse_layers))"

section \<open>Decoding one tile\<close>

text \<open>
  Method 0 of \<open>load_layer_image\<close>, the \<open>while off < len(raw)\<close> loop. Its state is
  \<open>off\<close>, \<open>bv_parts\<close> and \<open>prev_dict\<close>. \<open>None\<close> is an exception inside the
  \<open>try\<close> (a short header, a failing decompression); \<open>Some parts\<close> is the list
  \<open>bv_parts\<close> when the loop ends.
\<close>

function bv41_loop :: "libs \<Rightarrow> bytes \<Rightarrow> nat \<Rightarrow> bytes list \<Rightarrow> bytes \<Rightarrow> bytes list option" where
  "bv41_loop L raw off bv_parts prev_dict =
     (if off < length raw then
        (if slice raw off (off + 4) = bv4_end then Some bv_parts
         else if slice raw off (off + 4) \<noteq> bv41_tag then Some bv_parts
         else
           (case unpack_u32_le raw (off + 4) of
              None \<Rightarrow> None
            | Some u_size \<Rightarrow>
               (case unpack_u32_le raw (off + 8) of
                  None \<Rightarrow> None
                | Some c_size \<Rightarrow>
                   (case lz4_decompress L (slice raw (off + 12) (off + 12 + c_size)) u_size
                           (Some prev_dict) of
                      None \<Rightarrow> None
                    | Some chunk \<Rightarrow>
                        bv41_loop L raw (off + 12 + c_size) (bv_parts @ [chunk]) chunk))))
      else Some bv_parts)"
  by pat_completeness auto
termination
  by (relation "measure (\<lambda>(L, raw, off, bv_parts, prev_dict). length raw - off)") auto

text \<open>\<open>pixels = b"".join(bv_parts)\<close>, or \<open>None\<close> after an exception.\<close>

definition bv41_decode :: "libs \<Rightarrow> bytes \<Rightarrow> bytes option" where
  "bv41_decode L raw = map_option concat (bv41_loop L raw 0 [] [])"

text \<open>
  The chain of decoders of \<open>load_layer_image\<close> for one tile: the variable \<open>pixels\<close>
  after each method, then the check before the tile is pasted. The result is the
  pixel buffer that is pasted, or \<open>None\<close> when the loop goes on to the next entry.
\<close>

definition method0 :: "libs \<Rightarrow> bytes \<Rightarrow> bytes option" where
  "method0 L raw = (if slice raw 0 4 = bv41_tag then bv41_decode L raw else None)"

definition method1 :: "bytes \<Rightarrow> nat \<Rightarrow> bytes option \<Rightarrow> bytes option" where
  "method1 raw expected_size pixels =
     (if pixels = None \<and> length raw = expected_size then Some raw else pixels)"

definition method2 :: "libs \<Rightarrow> bytes \<Rightarrow> nat \<Rightarrow> bytes option \<Rightarrow> bytes option" where
  "method2 L raw expected_size pixels =
     (if pixels = None then lz4_decompress L raw expected_size None else pixels)"

definition method3 :: "libs \<Rightarrow> bytes \<Rightarrow> nat \<Rightarrow> bytes option \<Rightarrow> bytes option" where
  "method3 L raw expected_size pixels =
     (if pixels = None then lzo_decompress L raw expected_size else pixels)"

definition method4 :: "libs \<Rightarrow> bytes \<Rightarrow> bytes option \<Rightarrow> bytes option" where
  "method4 L raw pixels =
     (if pixels = None then zlib_decompress L raw else pixels)"

definition decode_tile :: "libs \<Rightarrow> bytes \<Rightarrow> nat \<Rightarrow> bytes option" where
  "decode_tile L raw expected_size =
     (let pixels = method0 L raw;
          pixels = method1 raw expected_size pixels;
          pixels = method2 L raw expected_size pixels;
          pixels = method3 L raw expected_size pixels;
          pixels = method4 L raw pixels
      in case pixels of
           None \<Rightarrow> None
         | Some p \<Rightarrow> if length p \<noteq> expected_size then None else Some p)"

section \<open>Layer images and compositing\<close>

definition get_tile_size :: "procreate_file \<Rightarrow> py_error + int" where
  "get_tile_size pf =
     py_bind (get_root_object pf) (\<lambda>root.
       if truthy root then
         (case root of
            Some (PDict r) \<Rightarrow>
              (let ts = get_int r [''tileSize'', ''SilicaDocumentArchiveTileSize''] 0
               in if 0 < ts then Inr ts else Inr 256)
          | _ \<Rightarrow> Inr 256)
       else Inr 256)"

text \<open>
  From the name of a tile entry after the layer's prefix to its column and row: the
  extension is cut, the rest is split at \<open>~\<close> if it has one, else at \<open>_\<close>, and must
  give exactly two integers. \<open>None\<close> is the \<open>continue\<close> of the loop.
\<close>

definition strip_ext :: "string \<Rightarrow> string" where
  "strip_ext n =
     (if endswith (lower n) ''.chunk'' then take (length n - 6) n
      else if endswith (lower n) ''.lz4'' then take (length n - 4) n
      else n)"

definition tile_coords :: "string \<Rightarrow> (int \<times> int) option" where
  "tile_coords basename =
     (let name_part = strip_ext basename in
      case (if CHR ''~'' \<in> set name_part then Some (split_on CHR ''~'' name_part)
            else if CHR ''_'' \<in> set name_part then Some (split_on CHR ''_'' name_part)
            else None) of
        Some [p0, p1] \<Rightarrow>
          (case py_int p0 of
             None \<Rightarrow> None
           | Some col \<Rightarrow>
              (case py_int p1 of
                 None \<Rightarrow> None
               | Some row \<Rightarrow> Some (col, row)))
      | _ \<Rightarrow> None)"

text \<open>
  One round of the loop over \<open>chunk_files\<close> up to the paste: the position and the
  tile image, or \<open>None\<close> when the round ends in \<open>continue\<close>.
\<close>

definition load_tile ::
  "libs \<Rightarrow> zip_archive \<Rightarrow> nat \<Rightarrow> nat \<Rightarrow> string \<Rightarrow> ((int \<times> int) \<times> image) option" where
  "load_tile L z prefix_len tile_size chunk_path =
     (case tile_coords (drop prefix_len chunk_path) of
        None \<Rightarrow> None
      | Some (col, row) \<Rightarrow>
         (case zip_read z chunk_path of
            None \<Rightarrow> None
          | Some raw \<Rightarrow>
             (case decode_tile L raw (tile_size * tile_size * 4) of
                None \<Rightarrow> None
              | Some p \<Rightarrow>
                  Some ((col * int tile_size, row * int tile_size),
                        frombytes_bgra tile_size p))))"

fun paste_tiles ::
  "libs \<Rightarrow> zip_archive \<Rightarrow> nat \<Rightarrow> nat \<Rightarrow> string list \<Rightarrow> image \<times> bool \<Rightarrow> image \<times> bool" where
  "paste_tiles L z prefix_len tile_size [] st = st"
| "paste_tiles L z prefix_len tile_size (chunk_path # rest) (layer_img, loaded_any) =
     (case load_tile L z prefix_len tile_size chunk_path of
        None \<Rightarrow> paste_tiles L z prefix_len tile_size rest (layer_img, loaded_any)
      | Some (pos, tile_img) \<Rightarrow>
          paste_tiles L z prefix_len tile_size rest (paste layer_img tile_img pos, True))"

definition chunk_files :: "zip_archive \<Rightarrow> string \<Rightarrow> string list" where
  "chunk_files z pre =
     filter (\<lambda>n. startswith n pre \<and> (endswith (lower n) ''.chunk'' \<or> endswith (lower n) ''.lz4''))
       (namelist z)"

definition load_layer_image :: "libs \<Rightarrow> procreate_file \<Rightarrow> int \<Rightarrow> py_error + image option" where
  "load_layer_image L pf layer_index =
     (case zip_file pf of
        None \<Rightarrow> Inr None
      | Some z \<Rightarrow>
          if layer_index < 0 \<or> int (length (layers pf)) \<le> layer_index then Inr None
          else
            (let layer = layers pf ! nat layer_index in
             if uuid layer = [] then Inr None
             else
               (let pre = uuid layer @ ''/'' in
                if chunk_files z pre = [] then Inr None
                else
                  py_bind (get_tile_size pf) (\<lambda>tile_size.
                    let tile_size = (if tile_size \<le> 0 then 256 else tile_size);
                        w = canvas_width pf;
                        h = canvas_height pf
                    in if w \<le> 0 \<or> h \<le> 0 then Inr None
                       else
                         (let cols = max 1 ((w + tile_size - 1) div tile_size);
                              rows = max 1 ((h + tile_size - 1) div tile_size);
                              blank = new_image (nat (cols * tile_size)) (nat (rows * tile_size))
                                        (0, 0, 0, 0)
                          in case paste_tiles L z (length pre) (nat tile_size)
                                    (chunk_files z pre) (blank, False) of
                               (layer_img, loaded_any) \<Rightarrow>
                                 if \<not> loaded_any then Inr None
                                 else if int (width layer_img) \<noteq> w \<or> int (height layer_img) \<noteq> h
                                 then Inr (Some (crop layer_img (nat w) (nat h)))
                                 else Inr (Some layer_img))))))"

text \<open>
  \<open>composite_layers\<close>. The overrides are \<open>None\<close> or a dictionary from layer index to
  visibility (an association list); an empty dictionary is false as a condition.
  \<open>blend_layer\<close> is the end of the loop body: the opacity step and the blend.
\<close>

definition layer_visible :: "(int \<times> bool) list option \<Rightarrow> nat \<Rightarrow> procreate_layer \<Rightarrow> bool" where
  "layer_visible visibility_overrides i layer =
     (case visibility_overrides of
        None \<Rightarrow> visible layer
      | Some ov \<Rightarrow>
          if ov \<noteq> [] then
            (case map_of ov (int i) of Some v \<Rightarrow> v | None \<Rightarrow> visible layer)
          else visible layer)"

definition blend_layer :: "image \<Rightarrow> procreate_layer \<Rightarrow> image \<Rightarrow> py_error + image" where
  "blend_layer result layer layer_img =
     alpha_composite result
       (if opacity layer < 1 then apply_opacity (opacity layer) layer_img else layer_img)"

fun composite_loop ::
  "libs \<Rightarrow> procreate_file \<Rightarrow> (int \<times> bool) list option \<Rightarrow> (nat \<times> procreate_layer) list
     \<Rightarrow> image \<times> bool \<Rightarrow> py_error + image \<times> bool" where
  "composite_loop L pf ov [] st = Inr st"
| "composite_loop L pf ov ((i, layer) # rest) (result, loaded_any) =
     (if \<not> layer_visible ov i layer then composite_loop L pf ov rest (result, loaded_any)
      else
        (case load_layer_image L pf (int i) of
           Inl e \<Rightarrow> Inl e
         | Inr None \<Rightarrow> composite_loop L pf ov rest (result, loaded_any)
         | Inr (Some layer_img) \<Rightarrow>
            (case blend_layer result layer layer_img of
               Inl e \<Rightarrow> Inl e
             | Inr result' \<Rightarrow> composite_loop L pf ov rest (result', True))))"

definition composite_layers ::
  "libs \<Rightarrow> procreate_file \<Rightarrow> (int \<times> bool) list option \<Rightarrow> py_error + image option" where
  "composite_layers L pf visibility_overrides =
     (if layers pf = [] then Inr None
      else
        (let w = canvas_width pf; h = canvas_height pf in
         if w \<le> 0 \<or> h \<le> 0 then Inr None
         else
           py_bind (composite_loop L pf visibility_overrides (enumerate 0 (layers pf))
                      (new_image (nat w) (nat h) (255, 255, 255, 0), False))
             (\<lambda>(result, loaded_any). Inr (if loaded_any then Some result else None))))"

section \<open>The chained-block format as the specification describes it\<close>

text \<open>
  A stream of sub-blocks: each is the tag, the declared uncompressed size and the
  compressed size (four bytes each, little endian), then the compressed bytes.
  \<open>chained_parts\<close> decompresses a sequence of sub-blocks with a given first
  dictionary, each later one with the output of the one before it;
  \<open>chained_decode\<close> starts from the empty dictionary and joins the outputs.
  \<open>stream_end\<close> says what may follow the last sub-block: nothing, or the
  terminator tag and anything after it.
\<close>

definition le32 :: "nat \<Rightarrow> bytes" where
  "le32 n = [of_nat (n mod 256), of_nat (n div 256 mod 256),
             of_nat (n div 65536 mod 256), of_nat (n div 16777216 mod 256)]"

fun bv41_frame :: "nat \<times> bytes \<Rightarrow> bytes" where
  "bv41_frame (u_size, payload) = bv41_tag @ le32 u_size @ le32 (length payload) @ payload"

definition bv41_stream :: "(nat \<times> bytes) list \<Rightarrow> bytes" where
  "bv41_stream blocks = concat (map bv41_frame blocks)"

fun chained_parts :: "libs \<Rightarrow> bytes \<Rightarrow> (nat \<times> bytes) list \<Rightarrow> bytes list option" where
  "chained_parts L dict [] = Some []"
| "chained_parts L dict ((u_size, payload) # blocks) =
     (case lz4_decompress L payload u_size (Some dict) of
        None \<Rightarrow> None
      | Some out \<Rightarrow> map_option ((#) out) (chained_parts L out blocks))"

definition chained_decode :: "libs \<Rightarrow> (nat \<times> bytes) list \<Rightarrow> bytes option" where
  "chained_decode L blocks = map_option concat (chained_parts L [] blocks)"

definition stream_end :: "bytes \<Rightarrow> bool" where
  "stream_end tail = (tail = [] \<or> slice tail 0 4 = bv4_end)"

text \<open>
  The overrides that give every layer its own visibility flag: what the
  specification calls compositing under native visibility, written as a dictionary.
\<close>

definition native_overrides :: "procreate_file \<Rightarrow> (int \<times> bool) list" where
  "native_overrides pf = map (\<lambda>(i, layer). (int i, visible layer)) (enumerate 0 (layers pf))"

section \<open>The decode chain as a list of attempts\<close>

text \<open>
  The five methods in their order, each as the result it would give on its own
  (\<open>None\<close> when it raises or does not apply), and two ways of choosing among them.
  \<open>checked\<close> keeps a result only if it has the expected length.
  \<open>decode_tile_spec\<close> follows the specification: a result of the wrong length
  counts as a failure of its step, and the next step is tried.
\<close>

definition checked :: "nat \<Rightarrow> bytes option \<Rightarrow> bytes option" where
  "checked n r = (case r of None \<Rightarrow> None | Some p \<Rightarrow> if length p = n then Some p else None)"

fun first_some :: "'a option list \<Rightarrow> 'a option" where
  "first_some [] = None"
| "first_some (None # rs) = first_some rs"
| "first_some (Some x # rs) = Some x"

definition attempts :: "libs \<Rightarrow> bytes \<Rightarrow> nat \<Rightarrow> bytes option list" where
  "attempts L raw n =
     [method0 L raw,
      if length raw = n then Some raw else None,
      lz4_decompress L raw n None,
      lzo_decompress L raw n,
      zlib_decompress L raw]"

definition decode_tile_spec :: "libs \<Rightarrow> bytes \<Rightarrow> nat \<Rightarrow> bytes option" where
  "decode_tile_spec L raw n = first_some (map (checked n) (attempts L raw n))"

section \<open>Sample inputs\<close>

text \<open>
  Stand-ins for the libraries, to run the model on concrete inputs. In \<open>no_codecs\<close>
  every decoder fails. \<open>lz4_literals\<close> decodes the LZ4 blocks that are one
  sequence of fewer than fifteen literals (a token byte \<open>16 * k\<close>, then \<open>k\<close>
  bytes), as the library does when the buffer size \<open>n\<close> it is given is large
  enough. \<open>lz4_echo\<close> is not LZ4: it returns the dictionary followed by the
  source, so that its output shows which dictionary it was given.
\<close>

definition no_codecs :: libs where
  "no_codecs =
     \<lparr>lz4_decompress = (\<lambda>src n d. None), lzo_decompress = (\<lambda>src n. None),
      zlib_decompress = (\<lambda>src. None), plist_loads = (\<lambda>src. None),
      image_open = (\<lambda>src. None)\<rparr>"

definition lz4_literals :: "bytes \<Rightarrow> nat \<Rightarrow> bytes option \<Rightarrow> bytes option" where
  "lz4_literals src n d =
     (case src of
        [] \<Rightarrow> None
      | t # lits \<Rightarrow>
          if unat t mod 16 = 0 \<and> 0 < unat t \<and> unat t div 16 < 15
             \<and> length lits = unat t div 16 \<and> length lits \<le> n \<and> n < 2 ^ 31
          then Some lits else None)"

definition literal_codecs :: libs where
  "literal_codecs = no_codecs\<lparr>lz4_decompress := lz4_literals\<rparr>"

definition lz4_echo :: "bytes \<Rightarrow> nat \<Rightarrow> bytes option \<Rightarrow> bytes option" where
  "lz4_echo src n d = (case d of None \<Rightarrow> Some src | Some prev \<Rightarrow> Some (prev @ src))"

definition echo_codecs :: libs where
  "echo_codecs = no_codecs\<lparr>lz4_decompress := lz4_echo\<rparr>"

text \<open>
  A document of one layer \<open>L1\<close> on a canvas one pixel wide and two high, with tiles
  of one pixel: the tile of row 0 is stored uncompressed, the tile of row 1 holds
  three bytes, which no decoder accepts. \<open>sample_libs\<close> decodes the one-byte
  archive entry to \<open>sample_plist\<close>.
\<close>

definition sample_root :: "(string \<times> pyobj) list" where
  "sample_root =
     [(''SilicaDocumentArchiveDimensionWidth'', PInt 1),
      (''SilicaDocumentArchiveDimensionHeight'', PInt 2),
      (''tileSize'', PInt 1),
      (''SilicaDocumentArchiveLayers'', PUID 2)]"

definition sample_layer :: "real \<Rightarrow> (string \<times> pyobj) list" where
  "sample_layer op =
     [(''name'', PUID 4), (''UUID'', PUID 5),
      (''contentsOpacity'', PFloat op), (''hidden'', PBool False)]"

definition sample_objects :: "real \<Rightarrow> pyobj list" where
  "sample_objects op =
     [PStr ''$null'',
      PDict sample_root,
      PDict [(''NS.objects'', PList [PUID 3])],
      PDict (sample_layer op),
      PStr ''Ink'',
      PStr ''L1'']"

definition sample_plist :: "real \<Rightarrow> pyobj" where
  "sample_plist op =
     PDict [(''$top'', PDict [(''root'', PUID 1)]), (''$objects'', PList (sample_objects op))]"

definition sample_libs :: "real \<Rightarrow> libs" where
  "sample_libs op =
     no_codecs\<lparr>plist_loads := (\<lambda>src. if src = [0] then Some (sample_plist op) else None)\<rparr>"

definition sample_zip :: zip_archive where
  "sample_zip =
     [(''Document.archive'', Some [0]),
      (''L1/0_0.chunk'', Some [30, 20, 10, 255]),
      (''L1/0_1.chunk'', Some [1, 2, 3])]"

text \<open>The state of the reader after opening the sample archive.\<close>

definition sample_doc :: "real \<Rightarrow> procreate_file" where
  "sample_doc op =
     \<lparr>thumbnail = None, composite = None,
      layers = [\<lparr>name = ''Ink'', uuid = ''L1'', opacity = op, visible = True,
                 blend_mode = 0\<rparr>],
      canvas_width = 1, canvas_height = 2, dpi = 132, orientation = 0,
      color_profile = ''sRGB'', layer_count = 1, video_enabled = False,
      metadata = [(''SilicaDocumentArchiveDimensionWidth'', PInt 1),
                  (''SilicaDocumentArchiveDimensionHeight'', PInt 2),
                  (''tileSize'', PInt 1)],
      zip_file = Some sample_zip,
      document_archive = Some (sample_plist op),
      archive_objects = PList (sample_objects op)\<rparr>"

text \<open>
  An archive with a thumbnail and a document archive that is not a property list.
  In \<open>thumb_libs\<close> the thumbnail bytes decode to an image three pixels wide and two
  high, and the property-list decoder raises on every input.
\<close>

definition thumb_image :: image where
  "thumb_image = new_image 3 2 (0, 0, 0, 255)"

definition thumb_libs :: libs where
  "thumb_libs =
     no_codecs\<lparr>image_open := (\<lambda>src. if src = [137, 80, 78, 71] then Some thumb_image else None)\<rparr>"

definition garbage_zip :: zip_archive where
  "garbage_zip =
     [(''QuickLook/Thumbnail.png'', Some [137, 80, 78, 71]),
      (''Document.archive'', Some (bytes_of ''garbage''))]"

section \<open>Facts about bytes and tags\<close>

lemma length_tags [simp]: "length bv41_tag = 4" "length bv4_end = 4"
  by (simp_all add: bv41_tag_def bv4_end_def bytes_of_def)

lemma tags_differ [simp]: "bv41_tag \<noteq> bv4_end" "bv4_end \<noteq> bv41_tag"
  by (simp_all add: bv41_tag_def bv4_end_def bytes_of_def)

lemma length_le32 [simp]: "length (le32 n) = 4"
  by (simp add: le32_def)

lemma unat_byte_of_nat: "unat (of_nat (n mod 256) :: byte) = n mod 256"
  by (simp add: unat_of_nat)

lemma le32_sum:
  assumes "n < 2 ^ 32"
  shows "n mod 256 + 256 * (n div 256 mod 256) + 65536 * (n div 65536 mod 256)
        + 16777216 * (n div 16777216 mod 256) = (n::nat)"
proof -
  define a where "a = n div 256"
  define b where "b = a div 256"
  define c where "c = b div 256"
  have e1: "n div 65536 = b" by (simp add: a_def b_def div_mult2_eq)
  have e2: "n div 16777216 = c" by (simp add: a_def b_def c_def div_mult2_eq)
  have c: "c < 256" using assms by (simp add: a_def b_def c_def)
  have n: "n = n mod 256 + 256 * a" by (simp add: a_def)
  have a: "a = a mod 256 + 256 * b" by (simp add: b_def)
  have b: "b = b mod 256 + 256 * c" by (simp add: c_def)
  have "n mod 256 + 256 * (a mod 256) + 65536 * (b mod 256) + 16777216 * c = n"
    using n a b by linarith
  then show ?thesis
    using c by (simp add: e1 e2 a_def [symmetric])
qed

lemma slice_mid [simp]:
  "length xs = k \<Longrightarrow> slice (pre @ xs @ post) (length pre) (length pre + k) = xs"
  by (simp add: slice_def)

lemma u32_of_le32:
  assumes "n < 2 ^ 32"
  shows "unat (of_nat (n mod 256) :: byte) + 256 * unat (of_nat (n div 256 mod 256) :: byte)
         + 65536 * unat (of_nat (n div 65536 mod 256) :: byte)
         + 16777216 * unat (of_nat (n div 16777216 mod 256) :: byte) = n"
  unfolding unat_byte_of_nat by (rule le32_sum [OF assms])

lemma unpack_le32:
  assumes "n < 2 ^ 32"
  shows "unpack_u32_le (pre @ le32 n @ post) (length pre) = Some n"
proof -
  have "slice (pre @ le32 n @ post) (length pre) (length pre + 4) = le32 n"
    by simp
  then have "unpack_u32_le (pre @ le32 n @ post) (length pre) =
     Some (unat (of_nat (n mod 256) :: byte) + 256 * unat (of_nat (n div 256 mod 256) :: byte)
         + 65536 * unat (of_nat (n div 65536 mod 256) :: byte)
         + 16777216 * unat (of_nat (n div 16777216 mod 256) :: byte))"
    unfolding unpack_u32_le_def by (simp only: le32_def list.case)
  then show ?thesis
    by (simp only: u32_of_le32 [OF assms])
qed

section \<open>The chained-block loop on a well-formed stream\<close>

declare bv41_loop.simps [simp del]

lemma bv41_loop_stop:
  assumes "stream_end tail"
  shows "bv41_loop L (pre @ tail) (length pre) parts prev = Some parts"
proof (cases "tail = []")
  case True
  then show ?thesis by (subst bv41_loop.simps) simp
next
  case False
  with assms have "slice tail 0 4 = bv4_end" by (simp add: stream_end_def)
  then have "slice (pre @ tail) (length pre) (length pre + 4) = bv4_end"
    by (simp add: slice_def)
  then show ?thesis by (subst bv41_loop.simps) simp
qed

lemma bv41_loop_frame:
  assumes u: "u < 2 ^ 32" and c: "length payload < 2 ^ 32"
  shows "bv41_loop L (pre @ bv41_frame (u, payload) @ post) (length pre) parts prev =
     (case lz4_decompress L payload u (Some prev) of
        None \<Rightarrow> None
      | Some chunk \<Rightarrow>
          bv41_loop L (pre @ bv41_frame (u, payload) @ post)
            (length (pre @ bv41_frame (u, payload))) (parts @ [chunk]) chunk)"
proof -
  let ?raw = "pre @ bv41_frame (u, payload) @ post"
  have raw: "?raw = pre @ bv41_tag @ (le32 u @ le32 (length payload) @ payload @ post)"
    by simp
  have tag: "slice ?raw (length pre) (length pre + 4) = bv41_tag"
    unfolding raw by (rule slice_mid) simp
  have "?raw = (pre @ bv41_tag) @ le32 u @ (le32 (length payload) @ payload @ post)"
    by simp
  then have "unpack_u32_le ?raw (length (pre @ bv41_tag)) = Some u"
    using unpack_le32 [OF u, of "pre @ bv41_tag"] by simp
  then have us: "unpack_u32_le ?raw (length pre + 4) = Some u" by simp
  have "?raw = (pre @ bv41_tag @ le32 u) @ le32 (length payload) @ (payload @ post)"
    by simp
  then have "unpack_u32_le ?raw (length (pre @ bv41_tag @ le32 u)) = Some (length payload)"
    using unpack_le32 [OF c, of "pre @ bv41_tag @ le32 u"] by simp
  then have cs: "unpack_u32_le ?raw (length pre + 8) = Some (length payload)" by simp
  have "?raw = (pre @ bv41_tag @ le32 u @ le32 (length payload)) @ payload @ post"
    by simp
  then have "slice ?raw (length (pre @ bv41_tag @ le32 u @ le32 (length payload)))
      (length (pre @ bv41_tag @ le32 u @ le32 (length payload)) + length payload) = payload"
    using slice_mid [of payload "length payload"
            "pre @ bv41_tag @ le32 u @ le32 (length payload)" post] by simp
  then have pl: "slice ?raw (length pre + 12) (length pre + 12 + length payload) = payload"
    by simp
  have lt: "length pre < length ?raw" by simp
  have len: "length (pre @ bv41_frame (u, payload)) = length pre + 12 + length payload"
    by simp
  show ?thesis
    by (subst bv41_loop.simps) (simp only: lt tag us cs pl len if_True if_False tags_differ
          option.case simp_thms split: option.split)
qed

lemma bv41_loop_stream:
  assumes "\<forall>(u, payload) \<in> set blocks. u < 2 ^ 32 \<and> length payload < 2 ^ 32"
      and "stream_end tail"
  shows "bv41_loop L (pre @ bv41_stream blocks @ tail) (length pre) parts prev =
         map_option ((@) parts) (chained_parts L prev blocks)"
  using assms(1)
proof (induction blocks arbitrary: pre parts prev)
  case Nil
  then show ?case
    using bv41_loop_stop [OF assms(2)] by (simp add: bv41_stream_def)
next
  case (Cons b blocks)
  obtain u payload where b: "b = (u, payload)" by (cases b)
  from Cons.prems b have u: "u < 2 ^ 32" and c: "length payload < 2 ^ 32"
    and rest: "\<forall>(u, payload) \<in> set blocks. u < 2 ^ 32 \<and> length payload < 2 ^ 32"
    by auto
  have raw: "pre @ bv41_stream (b # blocks) @ tail =
             pre @ bv41_frame (u, payload) @ (bv41_stream blocks @ tail)"
    by (simp add: bv41_stream_def b)
  have raw': "pre @ bv41_frame (u, payload) @ (bv41_stream blocks @ tail) =
             (pre @ bv41_frame (u, payload)) @ bv41_stream blocks @ tail"
    by simp
  have app: "\<And>x2. (@) (parts @ [x2]) = (\<lambda>x. parts @ x2 # x)"
    by (simp add: fun_eq_iff)
  have "bv41_loop L (pre @ bv41_stream (b # blocks) @ tail) (length pre) parts prev =
     (case lz4_decompress L payload u (Some prev) of
        None \<Rightarrow> None
      | Some chunk \<Rightarrow>
          bv41_loop L ((pre @ bv41_frame (u, payload)) @ bv41_stream blocks @ tail)
            (length (pre @ bv41_frame (u, payload))) (parts @ [chunk]) chunk)"
    unfolding raw by (subst bv41_loop_frame [OF u c]) (simp only: raw')
  also have "\<dots> =
     (case lz4_decompress L payload u (Some prev) of
        None \<Rightarrow> None
      | Some chunk \<Rightarrow> map_option ((@) (parts @ [chunk])) (chained_parts L chunk blocks))"
    by (simp only: Cons.IH [OF rest])
  also have "\<dots> = map_option ((@) parts) (chained_parts L prev (b # blocks))"
    by (simp add: b option.map_comp comp_def app split: option.split)
  finally show ?case .
qed

lemma bv41_decode_stream:
  assumes "\<forall>(u, payload) \<in> set blocks. u < 2 ^ 32 \<and> length payload < 2 ^ 32"
      and "stream_end tail"
  shows "bv41_decode L (bv41_stream blocks @ tail) = chained_decode L blocks"
proof -
  have "bv41_loop L ([] @ bv41_stream blocks @ tail) (length ([] :: bytes)) [] [] =
     map_option ((@) []) (chained_parts L [] blocks)"
    by (rule bv41_loop_stream [OF assms])
  then show ?thesis
    by (simp add: bv41_decode_def chained_decode_def option.map_comp comp_def
         option.map_ident)
qed

lemma stream_starts_with_tag:
  "blocks \<noteq> [] \<Longrightarrow> slice (bv41_stream blocks @ tail) 0 4 = bv41_tag"
  by (cases blocks) (auto simp: bv41_stream_def slice_def)

text \<open>
  Claim C1. On an input that begins with the tag and is a sequence of well-formed
  sub-blocks (sizes that fit their four-byte fields), followed by nothing or by the
  terminator tag, the chained-block method returns what the specification describes:
  the first sub-block is decompressed with the empty dictionary, each later one with
  exactly the output of the sub-block before it, and the outputs are joined. A
  failing decompression makes both fail.
\<close>

theorem bv41_chained_dictionary:
  assumes "\<forall>(u, payload) \<in> set blocks. u < 2 ^ 32 \<and> length payload < 2 ^ 32"
      and "blocks \<noteq> []"
      and "stream_end tail"
  shows "method0 L (bv41_stream blocks @ tail) = chained_decode L blocks"
  using bv41_decode_stream [OF assms(1) assms(3)] stream_starts_with_tag [OF assms(2)]
  by (simp add: method0_def)

theorem bv41_chained_dictionary_witness:
  "method0 echo_codecs (bv41_stream [(0, [1]), (0, [2]), (0, [3])] @ bv4_end)
     = Some [1, 1, 2, 1, 2, 3]"
  using bv41_chained_dictionary [of "[(0, [1]), (0, [2]), (0, [3])]" bv4_end echo_codecs]
  by (simp add: chained_decode_def echo_codecs_def lz4_echo_def stream_end_def slice_def)

section \<open>Visibility in the compositing loop\<close>

lemma composite_loop_cong:
  assumes "\<forall>(i, layer) \<in> set xs. layer_visible ov i layer = layer_visible ov' i layer"
  shows "composite_loop L pf ov xs st = composite_loop L pf ov' xs st"
  using assms
proof (induction xs arbitrary: st)
  case Nil
  show ?case by simp
next
  case (Cons x xs)
  obtain i layer where x: "x = (i, layer)" by (cases x)
  obtain result loaded_any where st: "st = (result, loaded_any)" by (cases st)
  from Cons.prems x have v: "layer_visible ov i layer = layer_visible ov' i layer"
    and rest: "\<forall>(i, layer) \<in> set xs. layer_visible ov i layer = layer_visible ov' i layer"
    by auto
  show ?case
    unfolding x st
    by (simp add: v Cons.IH [OF rest] split: sum.split option.split)
qed

lemma composite_loop_hidden:
  assumes "\<forall>(i, layer) \<in> set xs. \<not> layer_visible ov i layer"
  shows "composite_loop L pf ov xs st = Inr st"
  using assms
proof (induction xs)
  case Nil
  show ?case by simp
next
  case (Cons x xs)
  obtain i layer where x: "x = (i, layer)" by (cases x)
  obtain result loaded_any where st: "st = (result, loaded_any)" by (cases st)
  from Cons.prems x have "\<not> layer_visible ov i layer"
    and "\<forall>(i, layer) \<in> set xs. \<not> layer_visible ov i layer"
    by auto
  then show ?case
    using Cons.IH unfolding x st by simp
qed

lemma layer_visible_no_overrides:
  "layer_visible (Some []) i layer = layer_visible None i layer"
  by (simp add: layer_visible_def)

lemma map_of_native:
  assumes "(i, layer) \<in> set (enumerate n ls)"
  shows "map_of (map (\<lambda>(i, layer). (int i, visible layer)) (enumerate n ls)) (int i)
         = Some (visible layer)"
  using assms
proof (induction ls arbitrary: n)
  case Nil
  then show ?case by simp
next
  case (Cons l ls)
  show ?case
  proof (cases "i = n")
    case True
    with Cons.prems have "layer = l" by (auto simp: in_set_enumerate_eq)
    with True show ?thesis by simp
  next
    case False
    with Cons.prems have "(i, layer) \<in> set (enumerate (Suc n) ls)" by auto
    from Cons.IH [OF this] False show ?thesis by simp
  qed
qed

lemma layer_visible_native:
  assumes "(i, layer) \<in> set (enumerate 0 (layers pf))"
  shows "layer_visible (Some (native_overrides pf)) i layer = layer_visible None i layer"
  using map_of_native [OF assms] by (simp add: layer_visible_def native_overrides_def)

section \<open>The sample document\<close>

lemma zip_read_sample:
  "zip_read sample_zip ''Document.archive'' = Some [0]"
  "zip_read sample_zip ''L1/0_0.chunk'' = Some [30, 20, 10, 255]"
  "zip_read sample_zip ''L1/0_1.chunk'' = Some [1, 2, 3]"
  "zip_read sample_zip ''document.archive'' = None"
  by (simp_all add: zip_read_def sample_zip_def)

lemma root_sample:
  "document_archive pf = Some (sample_plist op) \<Longrightarrow>
   archive_objects pf = PList (sample_objects op) \<Longrightarrow>
   get_root_object pf = Inr (Some (PDict sample_root))"
  by (simp add: get_root_object_def sample_plist_def dict_get_default_def dict_get_def
        resolve_uid_def py_bind_def sample_objects_def)

lemma chunk_files_sample:
  "chunk_files sample_zip ''L1/'' = [''L1/0_0.chunk'', ''L1/0_1.chunk'']"
  by (simp add: chunk_files_def namelist_def sample_zip_def startswith_def endswith_def
        lower_def lower_char_def)

lemma tile_size_sample: "get_tile_size (sample_doc op) = Inr 1"
  by (simp add: get_tile_size_def root_sample [of _ op] sample_doc_def py_bind_def
        sample_root_def dict_get_def)

lemma tile_coords_sample:
  "tile_coords ''0_0.chunk'' = Some (0, 0)"
  "tile_coords ''0_1.chunk'' = Some (0, 1)"
  by (simp_all add: tile_coords_def strip_ext_def endswith_def lower_def lower_char_def
        py_int_def strip_def is_space_def parse_unsigned_def is_digit_def digit_val_def)

lemma decode_sample:
  "decode_tile (sample_libs op) [30, 20, 10, 255] 4 = Some [30, 20, 10, 255]"
  "decode_tile (sample_libs op) [1, 2, 3] 4 = None"
  by (simp_all add: decode_tile_def method0_def method1_def method2_def method3_def
        method4_def slice_def bv41_tag_def bytes_of_def sample_libs_def no_codecs_def)

lemma load_tile_sample:
  "load_tile (sample_libs op) sample_zip (Suc (Suc (Suc 0))) (Suc 0) ''L1/0_0.chunk'' =
     Some ((0, 0), \<lparr>width = 1, height = 1, im_data = [(10, 20, 30, 255)]\<rparr>)"
  "load_tile (sample_libs op) sample_zip (Suc (Suc (Suc 0))) (Suc 0) ''L1/0_1.chunk'' = None"
  by (simp_all add: load_tile_def tile_coords_sample zip_read_sample decode_sample
        frombytes_bgra_def build_image_def)

lemma sample_doc_fields:
  "zip_file (sample_doc op) = Some sample_zip"
  "layers (sample_doc op) = [\<lparr>name = ''Ink'', uuid = ''L1'', opacity = op, visible = True,
                 blend_mode = 0\<rparr>]"
  "canvas_width (sample_doc op) = 1" "canvas_height (sample_doc op) = 2"
  by (simp_all add: sample_doc_def)

lemma load_layer_sample:
  "load_layer_image (sample_libs op) (sample_doc op) 0 =
     Inr (Some \<lparr>width = 1, height = 2, im_data = [(10, 20, 30, 255), (0, 0, 0, 0)]\<rparr>)"
proof -
  have up: "[0..<2] = [0, Suc 0]" by (simp add: upt_rec)
  show ?thesis
    by (simp add: load_layer_image_def sample_doc_fields chunk_files_sample tile_size_sample
          py_bind_def Let_def load_tile_sample new_image_def paste_def covers_def
          build_image_def getpixel_def up numeral_2_eq_2)
qed

lemma no_images_sample:
  "first_image (sample_libs op) z ps = None"
  by (induction ps) (simp_all add: try_load_image_def sample_libs_def no_codecs_def
        split: option.split)

lemma load_images_sample:
  "load_thumbnail (sample_libs op) z pf = pf"
  "load_composite (sample_libs op) z pf = pf"
  by (simp_all add: load_thumbnail_def load_composite_def no_images_sample
        del: first_image.simps)

lemma load_archive_sample:
  "load_document_archive (sample_libs op) sample_zip pf =
     pf\<lparr>document_archive := Some (sample_plist op),
        archive_objects := PList (sample_objects op)\<rparr>"
  by (simp add: load_document_archive_def zip_read_sample sample_libs_def sample_plist_def
        dict_get_def)

lemma resolve_sample:
  "resolve_uid (PList (sample_objects op)) (Some (PUID 2)) =
     Inr (Some (PDict [(''NS.objects'', PList [PUID 3])]))"
  "resolve_uid (PList (sample_objects op)) (Some (PUID 3)) = Inr (Some (PDict (sample_layer op)))"
  "resolve_uid (PList (sample_objects op)) (Some (PUID 4)) = Inr (Some (PStr ''Ink''))"
  "resolve_uid (PList (sample_objects op)) (Some (PUID 5)) = Inr (Some (PStr ''L1''))"
  "resolve_uid (PList (sample_objects op)) None = Inr None"
  by (simp_all add: resolve_uid_def py_bind_def sample_objects_def)

lemma parse_metadata_sample:
  assumes "document_archive pf = Some (sample_plist op)"
      and "archive_objects pf = PList (sample_objects op)"
      and "thumbnail pf = None"
  shows "parse_metadata pf =
     Inr (pf\<lparr>canvas_width := 1, canvas_height := 2, dpi := dpi pf, orientation := 0,
             video_enabled := False, color_profile := color_profile pf,
             metadata := metadata pf @
               [(''SilicaDocumentArchiveDimensionWidth'', PInt 1),
                (''SilicaDocumentArchiveDimensionHeight'', PInt 2),
                (''tileSize'', PInt 1)]\<rparr>)"
  by (simp add: parse_metadata_def root_sample [OF assms(1,2)] sample_root_def py_bind_def
        assms dict_get_def dict_get_default_def resolve_sample Let_def)

lemma parse_layer_sample:
  "parse_layer_dict (PList (sample_objects op)) (sample_layer op) 0 =
     Inr \<lparr>name = ''Ink'', uuid = ''L1'', opacity = op, visible = True, blend_mode = 0\<rparr>"
  by (simp add: parse_layer_dict_def py_bind_def dict_get_def dict_get_default_def
        resolve_sample str_or_def float_or_def int_or_def sample_layer_def)

lemma parse_layers_sample:
  assumes "document_archive pf = Some (sample_plist op)"
      and "archive_objects pf = PList (sample_objects op)"
      and "layers pf = []"
  shows "parse_layers pf =
     Inr (pf\<lparr>layers := [\<lparr>name = ''Ink'', uuid = ''L1'', opacity = op, visible = True,
                           blend_mode = 0\<rparr>],
             layer_count := 1\<rparr>)"
  by (simp add: parse_layers_def root_sample [OF assms(1,2)] sample_root_def py_bind_def
        assms dict_get_def dict_get_default_def resolve_sample parse_layer_sample)

text \<open>Opening the sample archive gives the sample document.\<close>

lemma open_sample:
  "open_file (sample_libs op) (ZipFile sample_zip) = Inr (sample_doc op)"
proof -
  let ?pf1 = "initial_file\<lparr>zip_file := Some sample_zip,
        document_archive := Some (sample_plist op),
        archive_objects := PList (sample_objects op)\<rparr>"
  let ?pf2 = "?pf1\<lparr>canvas_width := 1, canvas_height := 2, dpi := dpi ?pf1, orientation := 0,
             video_enabled := False, color_profile := color_profile ?pf1,
             metadata := metadata ?pf1 @
               [(''SilicaDocumentArchiveDimensionWidth'', PInt 1),
                (''SilicaDocumentArchiveDimensionHeight'', PInt 2),
                (''tileSize'', PInt 1)]\<rparr>"
  have m: "parse_metadata ?pf1 = Inr ?pf2"
    by (rule parse_metadata_sample) (simp_all add: initial_file_def)
  have l: "parse_layers ?pf2 = Inr (?pf2\<lparr>layers := [\<lparr>name = ''Ink'', uuid = ''L1'',
                  opacity = op, visible = True, blend_mode = 0\<rparr>], layer_count := 1\<rparr>)"
    by (rule parse_layers_sample) (simp_all add: initial_file_def)
  have "open_file (sample_libs op) (ZipFile sample_zip) =
          py_bind (parse_metadata ?pf1) parse_layers"
    by (simp add: open_file_def load_images_sample load_archive_sample Let_def)
  also have "\<dots> = parse_layers ?pf2"
    by (simp only: m py_bind_def sum.case)
  also have "\<dots> = Inr (sample_doc op)"
    unfolding l by (simp add: sample_doc_def initial_file_def)
  finally show ?thesis .
qed

lemma alpha_over_sample:
  "alpha_over (255, 255, 255, 0) (10, 20, 30, 255) = (10, 20, 30, 255)"
  "alpha_over (255, 255, 255, 0) (10, 20, 30, 127) = (10, 20, 30, 127)"
  "alpha_over (255, 255, 255, 0) (0, 0, 0, 0) = (255, 255, 255, 0)"
  by (simp_all add: alpha_over_def shift_div255_def Let_def)


lemma blend_sample_opaque:
  "blend_layer (new_image 1 2 (255, 255, 255, 0))
      \<lparr>name = ''Ink'', uuid = ''L1'', opacity = 1, visible = True, blend_mode = 0\<rparr>
      \<lparr>width = 1, height = 2, im_data = [(10, 20, 30, 255), (0, 0, 0, 0)]\<rparr> =
     Inr \<lparr>width = 1, height = 2, im_data = [(10, 20, 30, 255), (255, 255, 255, 0)]\<rparr>"
  by (simp add: blend_layer_def alpha_composite_def new_image_def alpha_over_sample
        numeral_2_eq_2)


lemma composite_sample:
  assumes "blend_layer (new_image 1 2 (255, 255, 255, 0))
      \<lparr>name = ''Ink'', uuid = ''L1'', opacity = op, visible = True, blend_mode = 0\<rparr>
      \<lparr>width = 1, height = 2, im_data = [(10, 20, 30, 255), (0, 0, 0, 0)]\<rparr> = Inr img"
  shows "composite_layers (sample_libs op) (sample_doc op) None = Inr (Some img)"
proof -
  have l: "load_layer_image (sample_libs op) (sample_doc op) (int 0) =
     Inr (Some \<lparr>width = 1, height = 2, im_data = [(10, 20, 30, 255), (0, 0, 0, 0)]\<rparr>)"
    using load_layer_sample [of op] by simp
  have "composite_loop (sample_libs op) (sample_doc op) None
          [(0, \<lparr>name = ''Ink'', uuid = ''L1'', opacity = op, visible = True, blend_mode = 0\<rparr>)]
          (new_image 1 2 (255, 255, 255, 0), False) = Inr (img, True)"
    by (simp only: composite_loop.simps layer_visible_def option.case procreate_layer.simps
          simp_thms if_False l sum.case assms)
  then show ?thesis
    by (simp add: composite_layers_def sample_doc_fields Let_def py_bind_def)
qed

lemma composite_sample_opaque:
  "composite_layers (sample_libs 1) (sample_doc 1) None =
     Inr (Some \<lparr>width = 1, height = 2, im_data = [(10, 20, 30, 255), (255, 255, 255, 0)]\<rparr>)"
  by (rule composite_sample [OF blend_sample_opaque])


section \<open>Reference resolution\<close>

text \<open>
  Claim C5. For an object graph that is a list of any length, the empty one
  included, a reference whose index is the length of the graph or more resolves to
  \<open>None\<close>; the result is a value (\<open>Inr\<close>), not an exception. The reference is
  any value that has an index: an integer or a \<open>UID\<close>.
\<close>

theorem resolve_uid_out_of_range:
  assumes "uid_index u = Some idx" and "int (length objs) \<le> idx"
  shows "resolve_uid (PList objs) (Some u) = Inr None"
  using assms by (simp add: resolve_uid_def py_bind_def)

theorem resolve_uid_out_of_range_witness:
  "resolve_uid (PList []) (Some (PUID 0)) = Inr None
   \<and> resolve_uid (PList [PStr ''$null'', PDict []]) (Some (PInt 2)) = Inr None"
  using resolve_uid_out_of_range [of "PUID 0" 0 "[]"]
        resolve_uid_out_of_range [of "PInt 2" 2 "[PStr ''$null'', PDict []]"]
  by simp

section \<open>Layers that cannot be loaded\<close>

text \<open>
  Claim C10. \<open>load_layer_image\<close> returns \<open>None\<close>, and raises nothing, for a layer
  index that is negative or not below the number of layers, and for a layer whose
  identifier is the empty string.
\<close>

theorem load_layer_image_absent:
  assumes "layer_index < 0 \<or> int (length (layers pf)) \<le> layer_index
           \<or> uuid (layers pf ! nat layer_index) = []"
  shows "load_layer_image L pf layer_index = Inr None"
  using assms by (auto simp: load_layer_image_def Let_def split: option.split)

theorem load_layer_image_absent_witness:
  "load_layer_image (sample_libs 1) (sample_doc 1) 1 = Inr None
   \<and> load_layer_image (sample_libs 1) (sample_doc 1) (- 1) = Inr None
   \<and> load_layer_image (sample_libs 1)
        (sample_doc 1\<lparr>layers := [\<lparr>name = ''Layer 1'', uuid = [], opacity = 1,
                                     visible = True, blend_mode = 0\<rparr>]\<rparr>) 0 = Inr None"
  using load_layer_image_absent [of 1 "sample_doc 1" "sample_libs 1"]
        load_layer_image_absent [of "- 1" "sample_doc 1" "sample_libs 1"]
        load_layer_image_absent [of 0 "sample_doc 1\<lparr>layers := [\<lparr>name = ''Layer 1'',
           uuid = [], opacity = 1, visible = True, blend_mode = 0\<rparr>]\<rparr>" "sample_libs 1"]
  by (simp add: sample_doc_fields)

section \<open>Compositing and visibility overrides\<close>

text \<open>
  Claim C8. Compositing with an empty dictionary of overrides gives the result of
  compositing with no overrides, where every layer counts with its own visibility
  flag; so does compositing with the dictionary that maps every layer index to the
  layer's own flag. Results are compared whole: the image, \<open>None\<close>, or the exception.
\<close>

theorem composite_empty_overrides:
  "composite_layers L pf (Some []) = composite_layers L pf None
   \<and> composite_layers L pf (Some (native_overrides pf)) = composite_layers L pf None"
proof -
  have a: "composite_loop L pf (Some []) xs st = composite_loop L pf None xs st" for xs st
    by (rule composite_loop_cong) (simp add: layer_visible_no_overrides)
  have b: "composite_loop L pf (Some (native_overrides pf)) (enumerate 0 (layers pf)) st
      = composite_loop L pf None (enumerate 0 (layers pf)) st" for st
    by (rule composite_loop_cong) (auto simp: layer_visible_native)
  show ?thesis
    by (simp only: composite_layers_def a b simp_thms)
qed

theorem composite_empty_overrides_witness:
  "composite_layers (sample_libs 1) (sample_doc 1) (Some []) =
     Inr (Some \<lparr>width = 1, height = 2, im_data = [(10, 20, 30, 255), (255, 255, 255, 0)]\<rparr>)
   \<and> composite_layers (sample_libs 1) (sample_doc 1) (Some [(0, True)]) =
     Inr (Some \<lparr>width = 1, height = 2, im_data = [(10, 20, 30, 255), (255, 255, 255, 0)]\<rparr>)"
  using composite_empty_overrides [of "sample_libs 1" "sample_doc 1"] composite_sample_opaque
  by (simp add: native_overrides_def sample_doc_fields enumerate_eq_zip)

text \<open>
  Claim C2, as the code has it. When the overrides hide every layer, no layer is
  loaded and \<open>composite_layers\<close> returns \<open>None\<close>: the transparent canvas it started
  from is dropped, because no layer contributed to it. The same holds for a document
  without layers. Nothing is raised.
\<close>

theorem composite_hide_all_absent:
  assumes "\<forall>i < length (layers pf). map_of ov (int i) = Some False"
  shows "composite_layers L pf (Some ov) = Inr None"
proof (cases "layers pf = []")
  case True
  then show ?thesis by (simp add: composite_layers_def)
next
  case False
  then have "0 < length (layers pf)" by simp
  with assms have "map_of ov (int 0) = Some False" by blast
  then have ov: "ov \<noteq> []" by auto
  have "\<forall>(i, layer) \<in> set (enumerate 0 (layers pf)). \<not> layer_visible (Some ov) i layer"
    using assms ov by (auto simp: in_set_enumerate_eq layer_visible_def)
  then have "composite_loop L pf (Some ov) (enumerate 0 (layers pf)) st = Inr st" for st
    by (rule composite_loop_hidden)
  then show ?thesis
    by (simp add: composite_layers_def Let_def py_bind_def)
qed

theorem composite_hide_all_absent_witness:
  "composite_layers (sample_libs 1) (sample_doc 1) (Some [(1, True), (0, False)]) = Inr None
   \<and> composite_layers (sample_libs 1) initial_file (Some []) = Inr None"
  using composite_hide_all_absent [of "sample_doc 1" "[(1, True), (0, False)]" "sample_libs 1"]
        composite_hide_all_absent [of initial_file "[]" "sample_libs 1"]
  by (simp add: sample_doc_fields initial_file_def)

text \<open>
  The claim as the specification states it fails: for the sample document, whose
  canvas is one pixel wide and two high, hiding its only layer gives \<open>None\<close>, not a
  transparent image of that size.
\<close>

theorem composite_hide_all_counterexample:
  "composite_layers (sample_libs 1) (sample_doc 1) (Some [(0, False)]) = Inr None
   \<and> composite_layers (sample_libs 1) (sample_doc 1) (Some [(0, False)])
       \<noteq> Inr (Some (new_image 1 2 (0, 0, 0, 0)))"
  by (simp add: composite_layers_def sample_doc_fields Let_def py_bind_def layer_visible_def
        enumerate_eq_zip)

section \<open>The decode chain\<close>

lemma sample_stream_decode:
  "method0 literal_codecs (bv41_frame (u, [16, 65]) @ tail) =
     (if u < 2 ^ 32 \<and> stream_end tail then
        (if 1 \<le> u \<and> u < 2 ^ 31 then Some [65] else None)
      else method0 literal_codecs (bv41_frame (u, [16, 65]) @ tail))"
proof (cases "u < 2 ^ 32 \<and> stream_end tail")
  case True
  then have "bv41_decode literal_codecs (bv41_stream [(u, [16, 65])] @ tail) =
      chained_decode literal_codecs [(u, [16, 65])]"
    by (intro bv41_decode_stream) simp_all
  moreover have "slice (bv41_stream [(u, [16, 65])] @ tail) 0 4 = bv41_tag"
    by (rule stream_starts_with_tag) simp
  ultimately show ?thesis
    using True
    by (simp add: method0_def bv41_stream_def chained_decode_def literal_codecs_def
          lz4_literals_def)
next
  case False
  then show ?thesis by auto
qed

text \<open>
  Claim C4, as the code has it. A method that raises or does not apply leaves
  \<open>pixels\<close> at \<open>None\<close> and the next one is tried; the first method that returns a
  buffer ends the chain, since every later method runs only while \<open>pixels\<close> is
  \<open>None\<close>. The length is compared with the expected size once, after the chain: a
  buffer of another length makes the tile fail, and no later method is tried.
\<close>

theorem decode_tile_first_result:
  "decode_tile L raw n = checked n (first_some (attempts L raw n))"
  by (cases "method0 L raw"; cases "length raw = n"; cases "lz4_decompress L raw n None";
      cases "lzo_decompress L raw n"; cases "zlib_decompress L raw")
     (simp_all add: decode_tile_def attempts_def checked_def method1_def method2_def
        method3_def method4_def)

theorem decode_tile_first_result_witness:
  "decode_tile literal_codecs [16, 65] 1 = Some [65]
   \<and> decode_tile literal_codecs [16, 65] 2 = Some [16, 65]
   \<and> decode_tile literal_codecs [16, 65] 3 = None"
  using decode_tile_first_result [of literal_codecs "[16, 65]" 1]
        decode_tile_first_result [of literal_codecs "[16, 65]" 2]
        decode_tile_first_result [of literal_codecs "[16, 65]" 3]
  by (simp add: attempts_def checked_def method0_def slice_def bv41_tag_def bytes_of_def
        literal_codecs_def lz4_literals_def no_codecs_def)

text \<open>
  The claim as the specification states it fails. The input below has 36 bytes, the
  size of a tile of side 3, and begins with the tag: one sub-block that decompresses
  to a single byte, the terminator, and padding. The chained-block method returns
  that one byte. The specification would treat the step as failed and go on to the
  next method, which accepts the input as uncompressed pixels; the code tries nothing
  more and the tile fails.
\<close>

theorem decode_tile_length_counterexample:
  "method0 literal_codecs (bv41_frame (1, [16, 65]) @ bv4_end @ replicate 18 0) = Some [65]
   \<and> length (bv41_frame (1, [16, 65]) @ bv4_end @ replicate 18 0) = 36
   \<and> decode_tile_spec literal_codecs (bv41_frame (1, [16, 65]) @ bv4_end @ replicate 18 0) 36
       = Some (bv41_frame (1, [16, 65]) @ bv4_end @ replicate 18 0)
   \<and> decode_tile literal_codecs (bv41_frame (1, [16, 65]) @ bv4_end @ replicate 18 0) 36
       = None"
proof -
  let ?raw = "bv41_frame (1, [16, 65]) @ bv4_end @ replicate 18 0"
  have e: "stream_end (bv4_end @ replicate 18 0)"
    by (simp add: stream_end_def slice_def)
  have m: "method0 literal_codecs ?raw = Some [65]"
    by (subst sample_stream_decode) (simp add: e)
  have l: "length ?raw = 36" by simp
  show ?thesis
    unfolding decode_tile_spec_def decode_tile_def attempts_def
    by (simp only: m l) (simp add: checked_def method1_def method2_def method3_def
          method4_def)
qed

section \<open>Declared sizes and the number of sub-blocks\<close>

lemma unpack_Some_length:
  "unpack_u32_le raw off = Some n \<Longrightarrow> off + 4 \<le> length raw"
  by (auto simp: unpack_u32_le_def slice_def split: list.splits
           dest!: arg_cong [where f = length])

lemma bv41_loop_count:
  "bv41_loop L raw off parts prev = Some parts' \<Longrightarrow>
   length parts' \<le> length parts + (length raw - off) div 12"
proof (induction L raw off parts prev rule: bv41_loop.induct)
  case (1 L raw off bv_parts prev_dict)
  show ?case
  proof (cases "off < length raw \<and> slice raw off (off + 4) \<noteq> bv4_end
                \<and> slice raw off (off + 4) = bv41_tag")
    case False
    with "1.prems" have "parts' = bv_parts"
      by (subst (asm) bv41_loop.simps) (auto split: if_splits)
    then show ?thesis by simp
  next
    case True
    with "1.prems" obtain u c chunk where
      u: "unpack_u32_le raw (off + 4) = Some u" and
      c: "unpack_u32_le raw (off + 8) = Some c" and
      d: "lz4_decompress L (slice raw (off + 12) (off + 12 + c)) u (Some prev_dict) = Some chunk"
      and r: "bv41_loop L raw (off + 12 + c) (bv_parts @ [chunk]) chunk = Some parts'"
      by (subst (asm) bv41_loop.simps) (auto split: if_splits option.splits)
    from True have t: "off < length raw" "slice raw off (off + 4) \<noteq> bv4_end"
      "\<not> slice raw off (off + 4) \<noteq> bv41_tag" by simp_all
    have "length parts' \<le> length (bv_parts @ [chunk]) + (length raw - (off + 12 + c)) div 12"
      by (rule "1.IH" [OF t u c d r])
    moreover have "off + 12 \<le> length raw"
      using unpack_Some_length [OF c] by simp
    ultimately show ?thesis by simp
  qed
qed

text \<open>
  Claim C9, as the code has it. The chained-block method checks neither the declared
  uncompressed size nor the number of sub-blocks. A sub-block's declared size, any
  value its four bytes can hold, goes unchanged to the block decompressor, and the
  method returns what that call returns. The loop ends on every input (the model's
  recursion is proved to terminate): each sub-block takes at least its 12 header
  bytes from the input, so there are at most \<open>len(raw) / 12\<close> of them.
\<close>

theorem bv41_no_size_bound:
  "(u < 2 ^ 32 \<and> length payload < 2 ^ 32 \<longrightarrow>
      method0 L (bv41_frame (u, payload)) = lz4_decompress L payload u (Some []))
   \<and> (bv41_loop L raw 0 [] [] = Some parts \<longrightarrow> 12 * length parts \<le> length raw)"
proof (intro conjI impI)
  assume a: "u < 2 ^ 32 \<and> length payload < 2 ^ 32"
  have "bv41_decode L (bv41_stream [(u, payload)] @ []) = chained_decode L [(u, payload)]"
    by (rule bv41_decode_stream) (use a in \<open>simp_all add: stream_end_def\<close>)
  moreover have "slice (bv41_stream [(u, payload)] @ []) 0 4 = bv41_tag"
    by (rule stream_starts_with_tag) simp
  ultimately show "method0 L (bv41_frame (u, payload)) = lz4_decompress L payload u (Some [])"
    by (simp add: method0_def bv41_stream_def chained_decode_def split: option.split)
next
  assume "bv41_loop L raw 0 [] [] = Some parts"
  from bv41_loop_count [OF this] show "12 * length parts \<le> length raw"
    by simp
qed

theorem bv41_no_size_bound_witness:
  "method0 echo_codecs (bv41_frame (4294967295, [7])) = Some [7]
   \<and> bv41_loop echo_codecs (bv41_frame (0, [7])) 0 [] [] = Some [[7]]
   \<and> 12 * length [[7 :: byte]] \<le> length (bv41_frame (0, [7]))"
proof -
  have "bv41_loop echo_codecs ([] @ bv41_stream [(0, [7])] @ []) (length ([] :: bytes)) [] []
      = map_option ((@) []) (chained_parts echo_codecs [] [(0, [7])])"
    by (rule bv41_loop_stream) (simp_all add: stream_end_def)
  then have l: "bv41_loop echo_codecs (bv41_frame (0, [7])) 0 [] [] = Some [[7]]"
    by (simp add: bv41_stream_def echo_codecs_def lz4_echo_def)
  show ?thesis
    using bv41_no_size_bound [of 4294967295 "[7]" echo_codecs "bv41_frame (0, [7])" "[[7]]"] l
    by (simp add: echo_codecs_def lz4_echo_def)
qed

text \<open>
  The claim as the specification states it fails. A sub-block that declares an
  uncompressed size of \<open>2^31 - 1\<close> bytes, far beyond any tile, is not rejected: the
  size is handed to the decompressor as its buffer size, and the one byte it
  produces is returned.
\<close>

theorem bv41_size_bound_counterexample:
  "method0 literal_codecs (bv41_frame (2147483647, [16, 65])) = Some [65]"
  using sample_stream_decode [of 2147483647 "[]"]
  by (simp add: stream_end_def)

section \<open>Opacity and the blend\<close>






lemma apply_opacity_size [simp]:
  "width (apply_opacity op im) = width im"
  "height (apply_opacity op im) = height im"
  "length (im_data (apply_opacity op im)) = length (im_data im)"
  by (simp_all add: apply_opacity_def)






section \<open>Opening an archive whose metadata does not decode\<close>

lemma load_images_fields:
  "layers (load_thumbnail L z pf) = layers pf"
  "canvas_width (load_thumbnail L z pf) = canvas_width pf"
  "canvas_height (load_thumbnail L z pf) = canvas_height pf"
  "document_archive (load_thumbnail L z pf) = document_archive pf"
  "layers (load_composite L z pf) = layers pf"
  "canvas_width (load_composite L z pf) = canvas_width pf"
  "canvas_height (load_composite L z pf) = canvas_height pf"
  "document_archive (load_composite L z pf) = document_archive pf"
  "thumbnail (load_composite L z pf) = thumbnail pf"
  by (simp_all add: load_thumbnail_def load_composite_def split: option.split)

lemma load_archive_undecodable:
  assumes "\<forall>path \<in> set paths. \<forall>b. zip_read z path = Some b \<longrightarrow> plist_loads L b = None"
  shows "load_archive_paths L z paths pf = pf"
  using assms by (induction paths) (auto split: option.split)

text \<open>
  Claim C3, as the code has it. When the bytes of the document archive do not
  decode (the property-list decoder raises, for each of the two entry names that is
  present), opening succeeds. The document is the default one with the thumbnail
  and the preview that were loaded: it has no layers and its canvas is 0 by 0. The
  size of the thumbnail is not used, because \<open>_parse_metadata\<close> returns before that
  step when there is no root object.
\<close>

theorem open_undecodable_metadata:
  assumes "\<forall>path \<in> {''Document.archive'', ''document.archive''}.
             \<forall>b. zip_read z path = Some b \<longrightarrow> plist_loads L b = None"
  shows "open_file L (ZipFile z) =
           Inr (load_composite L z (load_thumbnail L z (initial_file\<lparr>zip_file := Some z\<rparr>)))
     \<and> layers (load_composite L z (load_thumbnail L z (initial_file\<lparr>zip_file := Some z\<rparr>))) = []
     \<and> canvas_width
          (load_composite L z (load_thumbnail L z (initial_file\<lparr>zip_file := Some z\<rparr>))) = 0
     \<and> canvas_height
          (load_composite L z (load_thumbnail L z (initial_file\<lparr>zip_file := Some z\<rparr>))) = 0"
proof -
  let ?pf = "load_composite L z (load_thumbnail L z (initial_file\<lparr>zip_file := Some z\<rparr>))"
  have a: "load_document_archive L z ?pf = ?pf"
    unfolding load_document_archive_def
    by (rule load_archive_undecodable) (use assms in simp)
  have d: "document_archive ?pf = None"
    by (simp add: load_images_fields initial_file_def)
  then have r: "get_root_object ?pf = Inr None"
    by (simp add: get_root_object_def)
  have "parse_metadata ?pf = Inr ?pf" "parse_layers ?pf = Inr ?pf"
    by (simp_all add: parse_metadata_def parse_layers_def r py_bind_def)
  then have "open_file L (ZipFile z) = Inr ?pf"
    by (simp add: open_file_def Let_def a py_bind_def)
  then show ?thesis
    by (simp add: load_images_fields initial_file_def)
qed

theorem open_undecodable_metadata_witness:
  "open_file no_codecs (ZipFile [(''document.archive'', Some [0, 1, 2])]) =
     Inr (initial_file\<lparr>zip_file := Some [(''document.archive'', Some [0, 1, 2])]\<rparr>)"
  using open_undecodable_metadata [of "[(''document.archive'', Some [0, 1, 2])]" no_codecs]
  by (simp add: no_codecs_def load_thumbnail_def load_composite_def try_load_image_def
        zip_read_def namelist_def startswith_def)

text \<open>
  The claim as the specification states it fails on the dimensions. The archive
  below holds a thumbnail three pixels wide and two high and a document archive of
  garbage bytes. Opening it succeeds and keeps the thumbnail, and the canvas of the
  document is 0 by 0, not 3 by 2.
\<close>

theorem open_garbage_counterexample:
  "open_file thumb_libs (ZipFile garbage_zip) =
     Inr (initial_file\<lparr>zip_file := Some garbage_zip, thumbnail := Some thumb_image\<rparr>)
   \<and> canvas_width (initial_file\<lparr>zip_file := Some garbage_zip, thumbnail := Some thumb_image\<rparr>)
       = 0
   \<and> canvas_height (initial_file\<lparr>zip_file := Some garbage_zip, thumbnail := Some thumb_image\<rparr>)
       = 0
   \<and> width thumb_image = 3 \<and> height thumb_image = 2"
proof -
  have t: "load_thumbnail thumb_libs garbage_zip pf = pf\<lparr>thumbnail := Some thumb_image\<rparr>" for pf
    by (simp add: load_thumbnail_def try_load_image_def zip_read_def garbage_zip_def
          thumb_libs_def)
  have c: "load_composite thumb_libs garbage_zip pf = pf" for pf
    by (simp add: load_composite_def try_load_image_def zip_read_def garbage_zip_def)
  have a: "load_document_archive thumb_libs garbage_zip pf = pf" for pf
    by (simp add: load_document_archive_def zip_read_def garbage_zip_def thumb_libs_def
          no_codecs_def)
  have r: "get_root_object (initial_file\<lparr>zip_file := Some garbage_zip,
              thumbnail := Some thumb_image\<rparr>) = Inr None"
    by (simp add: get_root_object_def initial_file_def)
  show ?thesis
    by (simp add: open_file_def Let_def t c a parse_metadata_def parse_layers_def r
          py_bind_def)
       (simp add: initial_file_def thumb_image_def new_image_def)
qed

text \<open>
  Not part of the claim as amended: bytes that do decode, to a value that is not a
  dictionary. \<open>_load_document_archive\<close> keeps the value, and \<open>_get_root_object\<close>
  calls \<open>.get\<close> on it: opening raises \<open>AttributeError\<close>.
\<close>

lemma open_decoded_list_raises:
  assumes "plist_loads L b = Some (PList [PStr ''x''])"
  shows "open_file L (ZipFile [(''Document.archive'', Some b)]) = Inl AttributeError"
proof -
  let ?z = "[(''Document.archive'', Some b)]"
  have i: "load_thumbnail L ?z pf = pf" "load_composite L ?z pf = pf" for pf
    by (simp_all add: load_thumbnail_def load_composite_def try_load_image_def zip_read_def
          namelist_def startswith_def)
  have a: "load_document_archive L ?z pf = pf\<lparr>document_archive := Some (PList [PStr ''x''])\<rparr>"
    for pf
    by (simp add: load_document_archive_def zip_read_def assms)
  show ?thesis
    by (simp add: open_file_def Let_def i a parse_metadata_def get_root_object_def
          py_bind_def)
qed

section \<open>Pixels of built, pasted and cropped images\<close>


lemma build_image_size [simp]:
  "width (build_image w h f) = w" "height (build_image w h f) = h"
  "length (im_data (build_image w h f)) = w * h"
  by (simp_all add: build_image_def)


lemma new_image_size [simp]:
  "width (new_image w h c) = w" "height (new_image w h c) = h"
  "length (im_data (new_image w h c)) = w * h"
  by (simp_all add: new_image_def)


lemma paste_size [simp]:
  "width (paste im tile pos) = width im" "height (paste im tile pos) = height im"
  "length (im_data (paste im tile pos)) = width im * height im"
  by (simp_all add: paste_def)


lemma crop_size [simp]:
  "width (crop im w h) = w" "height (crop im w h) = h"
  "length (im_data (crop im w h)) = w * h"
  by (simp_all add: crop_def)


section \<open>The loop over the tile entries\<close>




section \<open>Layers with some tiles that fail\<close>



end
